theory Spec2Isabelle
  imports
    Complex_Main
    "HOL-Library.AList"
    "HOL-Library.Sublist"
    "HOL-Library.Char_ord"
    "HOL-Library.List_Lexorder"
begin

section \<open>Python values\<close>

text \<open>
  The converter works on what \<^verbatim>\<open>json.load\<close> and \<^verbatim>\<open>plistlib\<close> return: nested
  Python values. A string is a list of code points below 256 (HOL's \<open>char\<close>); a
  dictionary is an association list in insertion order, read with \<open>map_of\<close> and
  written with \<open>AList.update\<close> (an existing key keeps its place, a new key goes to
  the end, as in a Python \<^verbatim>\<open>dict\<close>). Of a float the code only observes whether
  it is zero.
\<close>

datatype pyval =
    PNone
  | PBool bool
  | PInt int
  | PFloat real
  | PStr string
  | PList "pyval list"
  | PDict "(string \<times> pyval) list"

datatype py_error = TypeError | AttributeError | KeyError | IndexError

type_synonym pydict = "(string \<times> pyval) list"

text \<open>Python's truth value testing (\<^verbatim>\<open>if x\<close>, \<^verbatim>\<open>not x\<close>).\<close>

fun truthy :: "pyval \<Rightarrow> bool" where
  "truthy PNone = False"
| "truthy (PBool b) = b"
| "truthy (PInt i) = (i \<noteq> 0)"
| "truthy (PFloat x) = (x \<noteq> 0)"
| "truthy (PStr s) = (s \<noteq> [])"
| "truthy (PList xs) = (xs \<noteq> [])"
| "truthy (PDict kvs) = (kvs \<noteq> [])"

text \<open>\<^verbatim>\<open>d.get(k, default)\<close>, \<^verbatim>\<open>d.get(k)\<close>, \<^verbatim>\<open>k in d\<close> and \<^verbatim>\<open>d[k] = v\<close>.\<close>

definition dict_get :: "pydict \<Rightarrow> string \<Rightarrow> pyval \<Rightarrow> pyval" where
  "dict_get d k dflt = (case map_of d k of Some v \<Rightarrow> v | None \<Rightarrow> dflt)"

definition dict_has :: "pydict \<Rightarrow> string \<Rightarrow> bool" where
  "dict_has d k = (map_of d k \<noteq> None)"

definition dict_set :: "string \<Rightarrow> pyval \<Rightarrow> pydict \<Rightarrow> pydict" where
  "dict_set k v d = AList.update k v d"

text \<open>
  \<^verbatim>\<open>needle in x\<close> for a string needle: substring test on a string, membership on a
  list, key test on a dictionary, \<^verbatim>\<open>TypeError\<close> on anything else.
\<close>

fun py_in :: "string \<Rightarrow> pyval \<Rightarrow> py_error + bool" where
  "py_in needle (PStr s) = Inr (sublist needle s)"
| "py_in needle (PList xs) = Inr (PStr needle \<in> set xs)"
| "py_in needle (PDict kvs) = Inr (dict_has kvs needle)"
| "py_in needle v = Inl TypeError"

section \<open>String operations\<close>

text \<open>\<^verbatim>\<open>str.lower\<close> on code points below 256: A-Z and the Latin-1 capitals.\<close>

definition lower_char :: "char \<Rightarrow> char" where
  "lower_char c =
     (let n = (of_char c :: nat)
      in if (65 \<le> n \<and> n \<le> 90) \<or> (192 \<le> n \<and> n \<le> 214) \<or> (216 \<le> n \<and> n \<le> 222)
         then char_of (n + 32) else c)"

definition lower :: "string \<Rightarrow> string" where
  "lower s = map lower_char s"

text \<open>
  The class \<^verbatim>\<open>\w\<close> of a \<^verbatim>\<open>str\<close> pattern: the alphanumeric code points (for
  \<^verbatim>\<open>str.isalnum\<close>) and the underscore.
\<close>

definition is_alnum :: "char \<Rightarrow> bool" where
  "is_alnum c =
     (let n = (of_char c :: nat)
      in (48 \<le> n \<and> n \<le> 57) \<or> (65 \<le> n \<and> n \<le> 90) \<or> (97 \<le> n \<and> n \<le> 122)
         \<or> n = 170 \<or> n = 178 \<or> n = 179 \<or> n = 181 \<or> n = 185 \<or> n = 186
         \<or> (188 \<le> n \<and> n \<le> 190) \<or> (192 \<le> n \<and> n \<le> 214)
         \<or> (216 \<le> n \<and> n \<le> 246) \<or> (248 \<le> n \<and> n \<le> 255))"

definition is_word :: "char \<Rightarrow> bool" where
  "is_word c = (is_alnum c \<or> c = CHR ''_'')"

text \<open>The whitespace that \<^verbatim>\<open>str.strip\<close> removes.\<close>

definition is_space :: "char \<Rightarrow> bool" where
  "is_space c =
     (let n = (of_char c :: nat)
      in (9 \<le> n \<and> n \<le> 13) \<or> (28 \<le> n \<and> n \<le> 32) \<or> n = 133 \<or> n = 160)"

text \<open>\<^verbatim>\<open>s.split(sep)[0]\<close> for a non-empty separator: the text before its first occurrence.\<close>

fun split_head :: "string \<Rightarrow> string \<Rightarrow> string" where
  "split_head sep [] = []"
| "split_head sep (c # cs) = (if prefix sep (c # cs) then [] else c # split_head sep cs)"

text \<open>\<^verbatim>\<open>os.path.basename\<close> (POSIX): the text after the last slash.\<close>

fun basename :: "string \<Rightarrow> string" where
  "basename [] = []"
| "basename (c # cs) = (if CHR ''/'' \<in> set (c # cs) then basename cs else c # cs)"

section \<open>The static permission dictionaries\<close>

text \<open>
  The two dictionaries of \<^verbatim>\<open>AltStoreConverter.__init__\<close>, entry by entry in source
  order. The entitlement literal repeats three keys; the code only asks whether a key is
  in that dictionary, so the repetition is not observable.
\<close>

definition permission_mappings :: "(string \<times> string) list" where
  "permission_mappings =
    [(''NSCameraUsageDescription'', ''Camera access''),
     (''NSMicrophoneUsageDescription'', ''Microphone access''),
     (''NSPhotoLibraryUsageDescription'', ''Photo Library access''),
     (''NSPhotoLibraryAddUsageDescription'', ''Photo Library write access''),
     (''NSLocationWhenInUseUsageDescription'', ''Location access when in use''),
     (''NSLocationAlwaysAndWhenInUseUsageDescription'', ''Location access always''),
     (''NSContactsUsageDescription'', ''Contacts access''),
     (''NSCalendarsUsageDescription'', ''Calendar access''),
     (''NSRemindersUsageDescription'', ''Reminders access''),
     (''NSMotionUsageDescription'', ''Motion and fitness access''),
     (''NSHealthUpdateUsageDescription'', ''Health data write access''),
     (''NSHealthShareUsageDescription'', ''Health data read access''),
     (''NSBluetoothAlwaysUsageDescription'', ''Bluetooth access''),
     (''NSBluetoothPeripheralUsageDescription'', ''Bluetooth peripheral access''),
     (''NSLocalNetworkUsageDescription'', ''Local network access''),
     (''NSSpeechRecognitionUsageDescription'', ''Speech recognition access''),
     (''NSFaceIDUsageDescription'', ''Face ID access''),
     (''NSAppleMusicUsageDescription'', ''Apple Music access''),
     (''NSMediaLibraryUsageDescription'', ''Media library access''),
     (''NSNearbyInteractionUsageDescription'', ''Nearby interaction access'')]"

definition entitlement_mappings :: "(string \<times> string) list" where
  "entitlement_mappings =
    [(''com.apple.security.application-groups'', ''Application groups''),
     (''com.apple.developer.siri'', ''Siri integration''),
     (''com.apple.developer.healthkit'', ''HealthKit access''),
     (''com.apple.developer.game-center'', ''Game Center''),
     (''com.apple.developer.networking.networkextension'', ''Network extensions''),
     (''com.apple.developer.networking.vpn.api'', ''VPN configuration''),
     (''com.apple.developer.devicecheck.appattest-environment'', ''App Attest''),
     (''com.apple.external-accessory.wireless-configuration'', ''Wireless accessory configuration''),
     (''com.apple.developer.networking.wifi-info'', ''WiFi information access''),
     (''com.apple.developer.networking.multipath'', ''Multipath networking''),
     (''com.apple.developer.associated-domains'', ''Associated domains''),
     (''com.apple.developer.default-data-protection'', ''Data protection''),
     (''com.apple.developer.kernel.increased-memory-limit'', ''Increased memory limit''),
     (''com.apple.developer.kernel.extended-virtual-addressing'', ''Extended virtual addressing''),
     (''keychain-access-groups'', ''Keychain access groups''),
     (''com.apple.developer.team-identifier'', ''Team identifier''),
     (''get-task-allow'', ''Debuggable (get-task-allow)''),
     (''com.apple.security.get-task-allow'', ''Debuggable (security variant)''),
     (''com.apple.developer.icloud-container-identifiers'', ''iCloud containers''),
     (''com.apple.developer.icloud-services'', ''iCloud services''),
     (''com.apple.developer.ubiquity-kvstore-identifier'', ''iCloud key-value storage''),
     (''com.apple.developer.ubiquity-container-identifiers'', ''iCloud document containers''),
     (''com.apple.developer.networking.HotspotConfiguration'', ''Hotspot configuration''),
     (''com.apple.developer.networking.slicing'', ''Network slicing''),
     (''com.apple.developer.networking.custom-protocol'', ''Custom network protocols''),
     (''com.apple.developer.networking.bluetooth'', ''Bluetooth networking''),
     (''com.apple.developer.coremedia.hls.low-latency'', ''Low-latency HLS''),
     (''com.apple.developer.avfoundation.multitasking-camera-access'', ''Background camera access''),
     (''com.apple.developer.media-device-discovery-extension'', ''Media device discovery''),
     (''com.apple.developer.carplay-audio'', ''CarPlay audio''),
     (''com.apple.developer.carplay-communication'', ''CarPlay communication''),
     (''com.apple.developer.carplay-messaging'', ''CarPlay messaging''),
     (''com.apple.developer.carplay-navigation'', ''CarPlay navigation''),
     (''com.apple.developer.carplay-parking'', ''CarPlay parking''),
     (''com.apple.developer.carplay-quick-ordering'', ''CarPlay quick ordering''),
     (''com.apple.developer.carplay-charging'', ''CarPlay EV charging''),
     (''com.apple.developer.carplay-driving-task'', ''CarPlay driving task''),
     (''com.apple.developer.usernotifications.communication'', ''Communication notifications''),
     (''com.apple.developer.usernotifications.critical-alerts'', ''Critical alert notifications''),
     (''com.apple.developer.usernotifications.time-sensitive'', ''Time sensitive notifications''),
     (''aps-environment'', ''Push notifications environment''),
     (''com.apple.developer.background-processing'', ''Background processing''),
     (''com.apple.developer.background-modes'', ''Background modes''),
     (''com.apple.security.exception.files.absolute-path.read-only'', ''Absolute path file read access''),
     (''com.apple.security.exception.files.absolute-path.read-write'', ''Absolute path file write access''),
     (''com.apple.security.exception.files.home-relative-path.read-only'', ''Home relative file read access''),
     (''com.apple.security.exception.files.home-relative-path.read-write'', ''Home relative file write access''),
     (''com.apple.security.exception.mach-lookup.global-name'', ''Mach service lookup''),
     (''com.apple.security.exception.shared-preference.read-only'', ''Shared preference read access''),
     (''com.apple.security.exception.shared-preference.read-write'', ''Shared preference write access''),
     (''com.apple.security.temporary-exception.files.absolute-path.read-only'', ''Temporary file read access''),
     (''com.apple.security.temporary-exception.files.absolute-path.read-write'', ''Temporary file write access''),
     (''com.apple.developer.nfc.readersession.formats'', ''NFC reader session''),
     (''com.apple.developer.nfc.readersession.iso7816.select-identifiers'', ''NFC ISO7816 identifiers''),
     (''com.apple.developer.proximity-reader.payment.acceptance'', ''Tap to Pay acceptance''),
     (''com.apple.developer.in-app-payments'', ''In-app payments''),
     (''com.apple.developer.storekit.external-purchase-link'', ''External purchase links''),
     (''com.apple.developer.weatherkit'', ''WeatherKit access''),
     (''com.apple.developer.shared-with-you'', ''Shared with You''),
     (''com.apple.developer.devicecheck.appattest-environment'', ''App Attest environment''),
     (''com.apple.developer.applesignin'', ''Sign in with Apple''),
     (''com.apple.developer.group-session'', ''SharePlay group sessions''),
     (''com.apple.developer.ClassKit-environment'', ''ClassKit environment''),
     (''com.apple.developer.maps'', ''MapKit''),
     (''com.apple.developer.web-browser-engine.webcontent'', ''Web browser engine''),
     (''com.apple.developer.web-browser-engine.networking'', ''Web browser networking''),
     (''com.apple.developer.web-browser-engine.rendering'', ''Web browser rendering''),
     (''com.apple.private.security.no-container'', ''No container restriction''),
     (''com.apple.private.security.storage.AppDataContainers'', ''App data container access''),
     (''com.apple.runningboard.primitiveattribute'', ''RunningBoard primitive attributes''),
     (''com.apple.frontboard.launchapplications'', ''Launch applications''),
     (''inter-app-audio'', ''Inter-App Audio''),
     (''application-identifier'', ''Application identifier''),
     (''beta-reports-active'', ''Beta reporting''),
     (''platform-application'', ''Platform application''),
     (''com.apple.private.skip-library-validation'', ''Skip library validation''),
     (''com.apple.private.security.no-sandbox'', ''No sandbox restriction''),
     (''com.apple.springboard.opensensitiveurl'', ''Open sensitive URLs''),
     (''com.apple.multitasking.systemappassertions'', ''System app assertions''),
     (''com.apple.backboardd.launchapplications'', ''Backboard launch applications''),
     (''com.apple.developer.system-extension.install'', ''System extension install''),
     (''com.apple.developer.driverkit'', ''DriverKit access''),
     (''com.apple.developer.kernel.extended-virtual-addressing'', ''Extended virtual addressing''),
     (''com.apple.developer.kernel.increased-memory-limit'', ''Increased memory limit'')]"

definition is_entitlement :: "string \<Rightarrow> bool" where
  "is_entitlement k = (map_of entitlement_mappings k \<noteq> None)"

section \<open>What the converter observes of the outside world\<close>

text \<open>
  A subprocess call either raises (timeout, tool not found) or exits with a return code
  and a standard output; the third component is what \<^verbatim>\<open>plistlib.loads\<close> makes of
  that output, \<open>None\<close> when it raises.
\<close>

datatype tool_result = ToolRaised | ToolExited int string "pyval option"

text \<open>
  Reading \<^verbatim>\<open>Info.plist\<close>: opening the archive entry raises, or the parser raises, or
  a value is parsed.
\<close>

datatype plist_read = EntryUnreadable | PlistUnparsable | PlistValue pyval

text \<open>
  A downloaded file, as \<^verbatim>\<open>download_and_analyze_ipa\<close> and \<^verbatim>\<open>analyze_ipa_file\<close>
  see it: each field is the result of one library or tool call of the source.
\<close>

record ipa_file =
  is_zipfile :: bool
  zip_opens :: bool
  namelist :: "string list"
  info_plist :: plist_read
  bundle_extracts :: bool
  codesign :: tool_result
  provision_on_disk :: bool
  security_cms :: tool_result

datatype fetch_outcome =
    FetchTimeout
  | FetchConnectionError
  | FetchHTTPError
  | FetchOtherError
  | Fetched ipa_file

record datetime =
  year :: nat
  month :: nat
  day :: nat
  hour :: nat
  minute :: nat
  second :: nat

text \<open>
  The environment of one app record's conversion: the clock reading of
  \<^verbatim>\<open>datetime.now()\<close>, Python's text for a list or dictionary interpolated into an
  f-string, and the outcome of downloading a URL.
\<close>

record env =
  now :: datetime
  repr :: "pyval \<Rightarrow> string"
  fetch :: "pyval \<Rightarrow> fetch_outcome"

record permission_result =
  entitlements :: "string list"
  privacy :: "(string \<times> string) list"

definition empty_permissions :: permission_result where
  "empty_permissions = \<lparr>entitlements = [], privacy = []\<rparr>"

section \<open>Archive inspection\<close>

text \<open>\<^verbatim>\<open>extract_entitlements_with_codesign\<close>: the recognised keys of the tool's plist.\<close>

fun extract_entitlements_with_codesign :: "tool_result \<Rightarrow> string list" where
  "extract_entitlements_with_codesign ToolRaised = []"
| "extract_entitlements_with_codesign (ToolExited returncode stdout parsed) =
     (if returncode = 0 \<and> stdout \<noteq> [] then
        (case parsed of
           Some (PDict entitlements_data) \<Rightarrow> filter is_entitlement (map fst entitlements_data)
         | _ \<Rightarrow> [])
      else [])"

text \<open>
  \<^verbatim>\<open>extract_mobileprovision_with_security\<close>: the recognised keys of the decoded
  profile's \<^verbatim>\<open>Entitlements\<close> dictionary.
\<close>

fun extract_mobileprovision_with_security :: "tool_result \<Rightarrow> string list" where
  "extract_mobileprovision_with_security ToolRaised = []"
| "extract_mobileprovision_with_security (ToolExited returncode stdout parsed) =
     (if returncode = 0 \<and> stdout \<noteq> [] then
        (case parsed of
           Some (PDict plist_data) \<Rightarrow>
             (case map_of plist_data ''Entitlements'' of
                Some (PDict entitlements_dict) \<Rightarrow> filter is_entitlement (map fst entitlements_dict)
              | _ \<Rightarrow> [])
         | _ \<Rightarrow> [])
      else [])"

text \<open>
  The loop over \<^verbatim>\<open>plist_data.items()\<close>: a recognised key gets the app's own
  description when that is a string with a non-blank character, the dictionary's label
  otherwise.
\<close>

fun privacy_entry :: "string \<times> pyval \<Rightarrow> (string \<times> string) list \<Rightarrow> (string \<times> string) list" where
  "privacy_entry (key, description) found =
     (case map_of permission_mappings key of
        None \<Rightarrow> found
      | Some label \<Rightarrow>
          (case description of
             PStr s \<Rightarrow> if s \<noteq> [] \<and> (\<exists>c \<in> set s. \<not> is_space c)
                       then AList.update key s found else AList.update key label found
           | _ \<Rightarrow> AList.update key label found))"

fun extract_privacy :: "plist_read \<Rightarrow> (string \<times> string) list" where
  "extract_privacy (PlistValue (PDict plist_data)) = foldl (\<lambda>found kv. privacy_entry kv found) [] plist_data"
| "extract_privacy r = []"

text \<open>\<^verbatim>\<open>for ent in entitlements_from_provision: if ent not in ...: append\<close>.\<close>

definition add_new :: "string list \<Rightarrow> string list \<Rightarrow> string list" where
  "add_new seen extra = foldl (\<lambda>acc ent. if ent \<in> set acc then acc else acc @ [ent]) seen extra"

text \<open>
  \<^verbatim>\<open>analyze_ipa_file\<close>. Every exception of its body is caught by the outer handler,
  which returns the permissions gathered so far: nothing when the archive does not open
  or the manifest entry cannot be read, the privacy half alone when the bundle cannot be
  extracted.
\<close>

definition app_folders :: "ipa_file \<Rightarrow> string list" where
  "app_folders f = filter (\<lambda>name. prefix ''Payload/'' name \<and> suffix ''.app/'' name) (namelist f)"

definition mobileprovision_files :: "ipa_file \<Rightarrow> string list" where
  "mobileprovision_files f = filter (sublist ''embedded.mobileprovision'') (namelist f)"

definition analyze_ipa_file :: "ipa_file \<Rightarrow> permission_result" where
  "analyze_ipa_file f =
     (if \<not> zip_opens f then empty_permissions
      else
        (case app_folders f of
           [] \<Rightarrow> empty_permissions
         | app_folder # _ \<Rightarrow>
             (let manifest_listed = (app_folder @ ''Info.plist'' \<in> set (namelist f)) in
              if manifest_listed \<and> info_plist f = EntryUnreadable then empty_permissions
              else
                (let found = (if manifest_listed then extract_privacy (info_plist f) else []) in
                 if \<not> bundle_extracts f then \<lparr>entitlements = [], privacy = found\<rparr>
                 else
                   (let from_codesign = extract_entitlements_with_codesign (codesign f);
                        merged =
                          (if mobileprovision_files f \<noteq> [] \<and> provision_on_disk f
                           then add_new from_codesign
                                  (extract_mobileprovision_with_security (security_cms f))
                           else from_codesign)
                    in \<lparr>entitlements = sort (remdups merged), privacy = found\<rparr>)))))"

text \<open>
  \<^verbatim>\<open>download_and_analyze_ipa\<close>: every failure of the download, and a file that is not
  a ZIP archive, give the empty result.
\<close>

definition download_and_analyze_ipa :: "env \<Rightarrow> pyval \<Rightarrow> permission_result" where
  "download_and_analyze_ipa e download_url =
     (case fetch e download_url of
        FetchTimeout \<Rightarrow> empty_permissions
      | FetchConnectionError \<Rightarrow> empty_permissions
      | FetchHTTPError \<Rightarrow> empty_permissions
      | FetchOtherError \<Rightarrow> empty_permissions
      | Fetched f \<Rightarrow> if \<not> is_zipfile f then empty_permissions else analyze_ipa_file f)"

section \<open>Schema conversion\<close>

definition bind_err :: "py_error + 'a \<Rightarrow> ('a \<Rightarrow> py_error + 'b) \<Rightarrow> py_error + 'b" where
  "bind_err m f = (case m of Inl err \<Rightarrow> Inl err | Inr x \<Rightarrow> f x)"

text \<open>
  \<^verbatim>\<open>strftime("%Y-%m-%dT%H:%M:%S-08:00")\<close>: the fields of the clock reading, zero
  padded, and then the literal text \<^verbatim>\<open>-08:00\<close> of the format string.
\<close>

definition digit_char :: "nat \<Rightarrow> char" where
  "digit_char n = char_of (48 + n mod 10)"

definition two_digits :: "nat \<Rightarrow> string" where
  "two_digits n = [digit_char (n div 10), digit_char n]"

definition four_digits :: "nat \<Rightarrow> string" where
  "four_digits n = [digit_char (n div 1000), digit_char (n div 100), digit_char (n div 10), digit_char n]"

definition strftime_stamp :: "datetime \<Rightarrow> string" where
  "strftime_stamp t =
     four_digits (year t) @ ''-'' @ two_digits (month t) @ ''-'' @ two_digits (day t) @ ''T''
     @ two_digits (hour t) @ '':'' @ two_digits (minute t) @ '':'' @ two_digits (second t)
     @ ''-08:00''"

text \<open>What an f-string puts for \<^verbatim>\<open>{v}\<close>: a string as it is, anything else by its text.\<close>

definition interpolate :: "env \<Rightarrow> pyval \<Rightarrow> string" where
  "interpolate e v = (case v of PStr s \<Rightarrow> s | _ \<Rightarrow> repr e v)"

text \<open>\<^verbatim>\<open>format_date\<close>.\<close>

definition format_date :: "env \<Rightarrow> pyval \<Rightarrow> py_error + pyval" where
  "format_date e date_str =
     (if \<not> truthy date_str then Inr (PStr (strftime_stamp (now e)))
      else bind_err (py_in ''T'' date_str) (\<lambda>has_time.
        if has_time then Inr date_str
        else Inr (PStr (interpolate e date_str @ ''T00:00:00-08:00''))))"

text \<open>\<^verbatim>\<open>re.sub(r'[^\w\-_.]', '_', app_name)\<close>.\<close>

definition safe_name :: "string \<Rightarrow> string" where
  "safe_name app_name =
     map (\<lambda>c. if is_word c \<or> c = CHR ''-'' \<or> c = CHR ''_'' \<or> c = CHR ''.'' then c else CHR ''_'')
       app_name"

text \<open>
  \<^verbatim>\<open>generate_screenshot_urls\<close>; \<^verbatim>\<open>re.sub\<close> raises \<^verbatim>\<open>TypeError\<close> on a name
  that is not a string.
\<close>

definition generate_screenshot_urls :: "pyval \<Rightarrow> string option \<Rightarrow> py_error + string list" where
  "generate_screenshot_urls app_name base_url =
     (case base_url of
        None \<Rightarrow> Inr []
      | Some b \<Rightarrow>
          if b = [] then Inr []
          else (case app_name of
                  PStr n \<Rightarrow> Inr [b @ ''/serve/screenshots/'' @ n @ ''/'' @ safe_name n @ ''-0.png'']
                | _ \<Rightarrow> Inl TypeError))"

text \<open>Lines 432-439: the base structure.\<close>

definition base_fields :: "pydict \<Rightarrow> pydict" where
  "base_fields app =
     [(''name'', dict_get app ''name'' (PStr [])),
      (''bundleIdentifier'', dict_get app ''bundleIdentifier'' (PStr [])),
      (''developerName'', dict_get app ''developerName'' (PStr [])),
      (''localizedDescription'', dict_get app ''localizedDescription'' (PStr [])),
      (''iconURL'', dict_get app ''iconURL'' (PStr [])),
      (''tintColor'', dict_get app ''tintColor'' (PStr ''FFC300''))]"

text \<open>Lines 441-443.\<close>

definition add_subtitle :: "pydict \<Rightarrow> pydict \<Rightarrow> pydict" where
  "add_subtitle app altstore_app =
     (if truthy (dict_get app ''subtitle'' PNone)
      then dict_set ''subtitle'' (dict_get app ''subtitle'' PNone) altstore_app
      else altstore_app)"

text \<open>
  Lines 445-458: the value stored under \<^verbatim>\<open>screenshots\<close>, if any. In the fallback
  the test is for \<^verbatim>\<open>serve/icons\<close> and the split is at \<^verbatim>\<open>/serve/icons/\<close>;
  \<^verbatim>\<open>.split\<close> exists on strings only.
\<close>

definition screenshots_of :: "pydict \<Rightarrow> py_error + pyval option" where
  "screenshots_of app =
     (if dict_has app ''screenshotURLs'' \<and> truthy (dict_get app ''screenshotURLs'' PNone)
      then Inr (Some (dict_get app ''screenshotURLs'' PNone))
      else if dict_has app ''screenshots'' \<and> truthy (dict_get app ''screenshots'' PNone)
      then Inr (Some (dict_get app ''screenshots'' PNone))
      else
        bind_err (py_in ''serve/icons'' (dict_get app ''iconURL'' (PStr []))) (\<lambda>found.
          if found then
            (case dict_get app ''iconURL'' (PStr []) of
               PStr icon \<Rightarrow>
                 (let base_url = split_head ''/serve/icons/'' icon in
                  if base_url \<noteq> [] then
                    bind_err (generate_screenshot_urls (dict_get app ''name'' PNone) (Some base_url))
                      (\<lambda>fallback_screenshots.
                         if fallback_screenshots \<noteq> []
                         then Inr (Some (PList (map PStr fallback_screenshots)))
                         else Inr None)
                  else Inr None)
             | _ \<Rightarrow> Inl AttributeError)
          else Inr None))"

definition add_screenshots :: "pydict \<Rightarrow> pydict \<Rightarrow> py_error + pydict" where
  "add_screenshots app altstore_app =
     bind_err (screenshots_of app) (\<lambda>shots.
       case shots of
         None \<Rightarrow> Inr altstore_app
       | Some v \<Rightarrow> Inr (dict_set ''screenshots'' v altstore_app))"

text \<open>Lines 471-482: the minimum OS version, an \<^verbatim>\<open>if\<close>/\<^verbatim>\<open>elif\<close> chain.\<close>

definition min_os_version :: "pydict \<Rightarrow> string \<Rightarrow> pyval" where
  "min_os_version app app_name_lower =
     (if sublist ''ios15'' app_name_lower \<or> sublist ''w15'' app_name_lower then PStr ''15.0''
      else if sublist ''ios16'' app_name_lower then PStr ''16.0''
      else if sublist ''ios14'' app_name_lower then PStr ''14.0''
      else if dict_has app ''minOSVersion'' then dict_get app ''minOSVersion'' PNone
      else PStr ''13.0'')"

text \<open>
  Lines 463-482: the version entry built from the flat fields; \<^verbatim>\<open>.lower\<close> exists on
  strings only.
\<close>

definition version_data :: "env \<Rightarrow> pydict \<Rightarrow> py_error + pydict" where
  "version_data e app =
     bind_err (format_date e (dict_get app ''versionDate'' (PStr []))) (\<lambda>date.
       case dict_get app ''name'' (PStr []) of
         PStr app_name \<Rightarrow>
           Inr (dict_set ''minOSVersion'' (min_os_version app (lower app_name))
                  [(''version'', dict_get app ''version'' (PStr ''1.0'')),
                   (''date'', date),
                   (''size'', dict_get app ''size'' (PInt 0)),
                   (''downloadURL'', dict_get app ''downloadURL'' (PStr [])),
                   (''localizedDescription'', dict_get app ''localizedDescription'' (PStr []))])
       | _ \<Rightarrow> Inl AttributeError)"

text \<open>Lines 461-486.\<close>

definition versions_of :: "env \<Rightarrow> pydict \<Rightarrow> py_error + pyval" where
  "versions_of e app =
     (if \<not> dict_has app ''versions''
      then bind_err (version_data e app) (\<lambda>v. Inr (PList [PDict v]))
      else Inr (dict_get app ''versions'' PNone))"

text \<open>
  \<^verbatim>\<open>altstore_app['versions'][0].get('downloadURL')\<close>, with Python's errors for a
  value that is not a list of dictionaries.
\<close>

fun first_download_url :: "pyval \<Rightarrow> py_error + pyval" where
  "first_download_url (PList (PDict v # rest)) = Inr (dict_get v ''downloadURL'' PNone)"
| "first_download_url (PList (v # rest)) = Inl AttributeError"
| "first_download_url (PList []) = Inl IndexError"
| "first_download_url (PStr s) = (if s = [] then Inl IndexError else Inl AttributeError)"
| "first_download_url (PDict kvs) = Inl KeyError"
| "first_download_url v = Inl TypeError"

text \<open>Lines 494-499: only the non-empty halves are kept.\<close>

definition clean_permissions :: "permission_result \<Rightarrow> pydict" where
  "clean_permissions permissions =
     (if entitlements permissions \<noteq> []
      then [(''entitlements'', PList (map PStr (entitlements permissions)))] else [])
     @ (if privacy permissions \<noteq> []
        then [(''privacy'', PDict (map (\<lambda>(k, v). (k, PStr v)) (privacy permissions)))] else [])"

text \<open>Lines 488-502.\<close>

definition add_permissions :: "env \<Rightarrow> bool \<Rightarrow> pydict \<Rightarrow> py_error + pydict" where
  "add_permissions e analyze_ipa altstore_app =
     (if analyze_ipa \<and> truthy (dict_get altstore_app ''versions'' PNone) then
        bind_err (first_download_url (dict_get altstore_app ''versions'' PNone)) (\<lambda>download_url.
          if truthy download_url then
            (let permissions = download_and_analyze_ipa e download_url in
             if entitlements permissions \<noteq> [] \<or> privacy permissions \<noteq> [] then
               (if clean_permissions permissions \<noteq> []
                then Inr (dict_set ''appPermissions'' (PDict (clean_permissions permissions)) altstore_app)
                else Inr altstore_app)
             else Inr altstore_app)
          else Inr altstore_app)
      else Inr altstore_app)"

text \<open>
  \<^verbatim>\<open>convert_app_to_altstore_format\<close>: \<open>Inr None\<close> is the skip (Python's \<^verbatim>\<open>None\<close>),
  \<open>Inl\<close> an exception that leaves the function.
\<close>

definition convert_app_to_altstore_format :: "env \<Rightarrow> pyval \<Rightarrow> bool \<Rightarrow> py_error + pyval option" where
  "convert_app_to_altstore_format e app analyze_ipa =
     (if \<not> truthy app then Inr None
      else
        (case app of
           PDict d \<Rightarrow>
             if \<not> truthy (dict_get d ''name'' PNone) \<or> \<not> truthy (dict_get d ''bundleIdentifier'' PNone)
             then Inr None
             else
               bind_err (add_screenshots d (add_subtitle d (base_fields d))) (\<lambda>with_shots.
               bind_err (versions_of e d) (\<lambda>versions.
               bind_err (add_permissions e analyze_ipa (dict_set ''versions'' versions with_shots))
                 (\<lambda>altstore_app. Inr (Some (PDict altstore_app)))))
         | _ \<Rightarrow> Inl AttributeError))"

section \<open>Catalog conversion\<close>

text \<open>
  \<^verbatim>\<open>len(x)\<close> followed by \<^verbatim>\<open>enumerate(x, 1)\<close>: the items of a list, the characters of
  a string, the keys of a dictionary; \<^verbatim>\<open>TypeError\<close> otherwise.
\<close>

fun py_items :: "pyval \<Rightarrow> py_error + pyval list" where
  "py_items (PList xs) = Inr xs"
| "py_items (PStr s) = Inr (map (\<lambda>c. PStr [c]) s)"
| "py_items (PDict kvs) = Inr (map (\<lambda>kv. PStr (fst kv)) kvs)"
| "py_items v = Inl TypeError"

text \<open>
  The loop of \<^verbatim>\<open>convert_repository\<close> (lines 521-538) with its two accumulators. The
  record numbered \<open>i\<close> is converted in the environment \<open>world i\<close>: its own clock
  reading and download. \<^verbatim>\<open>app.get('name', 'Unknown')\<close> stands outside the
  \<^verbatim>\<open>try\<close>, so an item that is not a dictionary ends the run; an exception of the
  conversion itself is caught and counted as a skip.
\<close>

fun convert_loop ::
  "(nat \<Rightarrow> env) \<Rightarrow> bool \<Rightarrow> (nat \<times> pyval) list \<Rightarrow> pyval list \<times> nat \<Rightarrow> py_error + pyval list \<times> nat" where
  "convert_loop world analyze_ipas [] acc = Inr acc"
| "convert_loop world analyze_ipas ((i, app) # rest) (converted_apps, skipped_apps) =
     (case app of
        PDict d \<Rightarrow>
          (case convert_app_to_altstore_format (world i) app analyze_ipas of
             Inr (Some converted_app) \<Rightarrow>
               if truthy converted_app
               then convert_loop world analyze_ipas rest (converted_apps @ [converted_app], skipped_apps)
               else convert_loop world analyze_ipas rest (converted_apps, Suc skipped_apps)
           | Inr None \<Rightarrow> convert_loop world analyze_ipas rest (converted_apps, Suc skipped_apps)
           | Inl err \<Rightarrow> convert_loop world analyze_ipas rest (converted_apps, Suc skipped_apps))
      | _ \<Rightarrow> Inl AttributeError)"

record conversion =
  written :: pyval
  converted :: nat
  skipped :: nat

text \<open>Lines 543-548: the two required fields are added when the key is absent.\<close>

definition ensure_required_fields :: "string \<Rightarrow> pydict \<Rightarrow> pydict" where
  "ensure_required_fields output_file data =
     (let data2 = (if \<not> dict_has data ''identifier''
                   then dict_set ''identifier'' (PStr ''com.converted.source'') data else data)
      in if \<not> dict_has data2 ''sourceURL''
         then dict_set ''sourceURL'' (PStr (''https://example.com/'' @ basename output_file)) data2
         else data2)"

text \<open>
  \<^verbatim>\<open>convert_repository\<close>, from the parsed input document to the document handed to
  \<^verbatim>\<open>json.dump\<close> and the two counts of the summary.
\<close>

definition convert_repository :: "(nat \<Rightarrow> env) \<Rightarrow> pyval \<Rightarrow> string \<Rightarrow> bool \<Rightarrow> py_error + conversion" where
  "convert_repository world data output_file analyze_ipas =
     (case data of
        PDict doc \<Rightarrow>
          bind_err (py_items (dict_get doc ''apps'' (PList []))) (\<lambda>apps.
          bind_err (convert_loop world analyze_ipas (enumerate 1 apps) ([], 0)) (\<lambda>(converted_apps, skipped_apps).
            Inr \<lparr>written = PDict (ensure_required_fields output_file
                                     (dict_set ''apps'' (PList converted_apps) doc)),
                 converted = length converted_apps, skipped = skipped_apps\<rparr>))
      | _ \<Rightarrow> Inl AttributeError)"

section \<open>Well-formed input\<close>

text \<open>
  The field types of the data model that the conversion relies on: an app record has a
  string name, icon URL and version date, and its version list is a list of
  dictionaries (each taken as the default when absent); a catalog's app list is a list
  of dictionaries.
\<close>

fun is_str :: "pyval \<Rightarrow> bool" where
  "is_str (PStr s) = True"
| "is_str v = False"

fun is_dict :: "pyval \<Rightarrow> bool" where
  "is_dict (PDict d) = True"
| "is_dict v = False"

fun is_dict_list :: "pyval \<Rightarrow> bool" where
  "is_dict_list (PList xs) = list_all is_dict xs"
| "is_dict_list v = False"

definition app_record :: "pydict \<Rightarrow> bool" where
  "app_record app =
     (is_str (dict_get app ''name'' (PStr [])) \<and> is_str (dict_get app ''iconURL'' (PStr []))
      \<and> is_str (dict_get app ''versionDate'' (PStr []))
      \<and> is_dict_list (dict_get app ''versions'' (PList [])))"

definition catalog :: "pydict \<Rightarrow> bool" where
  "catalog doc = is_dict_list (dict_get doc ''apps'' (PList []))"

text \<open>The download outcomes that the fetcher treats as a failure.\<close>

fun download_failed :: "fetch_outcome \<Rightarrow> bool" where
  "download_failed (Fetched f) = (\<not> is_zipfile f)"
| "download_failed outcome = True"

text \<open>
  The archives on which the inspection gets as far as running both tools: the archive
  opens, holds a bundle folder whose manifest entry is readable, the bundle extracts, and
  the provisioning profile is listed and present on disk.
\<close>

definition both_tools_run :: "ipa_file \<Rightarrow> bool" where
  "both_tools_run f =
     (zip_opens f \<and> app_folders f \<noteq> []
      \<and> (hd (app_folders f) @ ''Info.plist'' \<in> set (namelist f) \<and> info_plist f = EntryUnreadable) = False
      \<and> bundle_extracts f \<and> mobileprovision_files f \<noteq> [] \<and> provision_on_disk f)"

text \<open>What one numbered item of the app list contributes to the output list.\<close>

definition kept :: "(nat \<Rightarrow> env) \<Rightarrow> bool \<Rightarrow> nat \<times> pyval \<Rightarrow> pyval option" where
  "kept world analyze_ipas item =
     (case convert_app_to_altstore_format (world (fst item)) (snd item) analyze_ipas of
        Inr (Some converted_app) \<Rightarrow> if truthy converted_app then Some converted_app else None
      | _ \<Rightarrow> None)"

text \<open>The number of numbered items that contribute nothing: the skips.\<close>

definition skips :: "(nat \<Rightarrow> env) \<Rightarrow> bool \<Rightarrow> (nat \<times> pyval) list \<Rightarrow> nat" where
  "skips world analyze_ipas items = length (filter (\<lambda>item. kept world analyze_ipas item = None) items)"

section \<open>Sample inputs\<close>

definition sample_env :: env where
  "sample_env =
     \<lparr>now = \<lparr>year = 2026, month = 11, day = 4, hour = 9, minute = 5, second = 30\<rparr>,
      repr = (\<lambda>v. ''[]''),
      fetch = (\<lambda>url. FetchTimeout)\<rparr>"

definition foo_record :: pydict where
  "foo_record =
     [(''name'', PStr ''Foo''), (''bundleIdentifier'', PStr ''com.x.foo''),
      (''version'', PStr ''2.0''), (''downloadURL'', PStr ''https://h/f.ipa'')]"

definition empty_versions_record :: pydict where
  "empty_versions_record =
     [(''name'', PStr ''Foo''), (''bundleIdentifier'', PStr ''com.x.foo''), (''versions'', PList [])]"

definition two_versions_record :: pydict where
  "two_versions_record =
     [(''name'', PStr ''Bar''), (''bundleIdentifier'', PStr ''com.x.bar''),
      (''versions'', PList
         [PDict [(''version'', PStr ''1.1''), (''date'', PStr ''2024-05-01''),
                 (''downloadURL'', PStr ''https://h/bar-1.1.ipa''), (''size'', PInt 12)],
          PDict [(''version'', PStr ''1.0'')]])]"

definition both_markers_record :: pydict where
  "both_markers_record =
     [(''name'', PStr ''Delta iOS16 (iOS15 build)''), (''bundleIdentifier'', PStr ''com.x.delta'')]"

definition my_app_record :: pydict where
  "my_app_record =
     [(''name'', PStr ''My App+ 2!''), (''bundleIdentifier'', PStr ''com.x.myapp''),
      (''iconURL'', PStr ''https://x.test/serve/icons/App.png'')]"

definition ios14_record :: pydict where
  "ios14_record =
     [(''name'', PStr ''Foo iOS14''), (''bundleIdentifier'', PStr ''com.x.foo''),
      (''minOSVersion'', PStr ''12.0'')]"

definition no_bundle_record :: pydict where
  "no_bundle_record = [(''name'', PStr ''NoBundle''), (''version'', PStr ''0.1'')]"

definition sample_catalog :: pydict where
  "sample_catalog =
     [(''name'', PStr ''Sample Repo''), (''identifier'', PStr ''com.example.repo''),
      (''apps'', PList [PDict foo_record, PDict no_bundle_record]),
      (''news'', PList [])]"

definition sample_ipa :: ipa_file where
  "sample_ipa =
     \<lparr>is_zipfile = True, zip_opens = True,
      namelist = [''Payload/'', ''Payload/Foo.app/'', ''Payload/Foo.app/Info.plist'',
                  ''Payload/Foo.app/embedded.mobileprovision'', ''Payload/Foo.app/Foo''],
      info_plist = PlistValue (PDict
        [(''CFBundleName'', PStr ''Foo''),
         (''NSCameraUsageDescription'', PStr ''Scan codes''),
         (''NSMicrophoneUsageDescription'', PStr '' '')]),
      bundle_extracts = True,
      codesign = ToolExited 0 ''<plist>''
        (Some (PDict [(''keychain-access-groups'', PList []), (''get-task-allow'', PBool True),
                      (''com.example.private'', PBool True)])),
      provision_on_disk = True,
      security_cms = ToolExited 0 ''<plist>''
        (Some (PDict [(''Name'', PStr ''Dev''),
                      (''Entitlements'', PDict [(''get-task-allow'', PBool True),
                                                (''aps-environment'', PStr ''development'')])]))\<rparr>"

definition not_zip_env :: env where
  "not_zip_env = sample_env\<lparr>fetch := (\<lambda>url. Fetched (sample_ipa\<lparr>is_zipfile := False\<rparr>))\<rparr>"

section \<open>Auxiliary facts\<close>

lemma map_of_dict_set: "map_of (dict_set k v d) k' = (if k' = k then Some v else map_of d k')"
  by (simp add: dict_set_def update_conv')

lemma bind_err_Inr_iff: "bind_err m f = Inr y \<longleftrightarrow> (\<exists>x. m = Inr x \<and> f x = Inr y)"
  by (cases m) (simp_all add: bind_err_def)

lemma bind_err_Inr [simp]: "bind_err (Inr x) f = f x"
  by (simp add: bind_err_def)

lemma is_str_cases: "is_str v \<Longrightarrow> \<exists>s. v = PStr s"
  by (cases v) simp_all

lemma is_dict_cases: "is_dict v \<Longrightarrow> \<exists>d. v = PDict d"
  by (cases v) simp_all

lemma is_dict_list_cases: "is_dict_list v \<Longrightarrow> \<exists>xs. v = PList xs \<and> list_all is_dict xs"
  by (cases v) simp_all

lemma format_date_str: "\<exists>date. format_date e (PStr s) = Inr date"
  by (simp add: format_date_def)

lemma screenshots_of_total:
  assumes "is_str (dict_get app ''name'' PNone)" "is_str (dict_get app ''iconURL'' (PStr []))"
  shows "\<exists>shots. screenshots_of app = Inr shots"
proof -
  obtain n where n: "dict_get app ''name'' PNone = PStr n" using assms(1) is_str_cases by blast
  obtain u where u: "dict_get app ''iconURL'' (PStr []) = PStr u" using assms(2) is_str_cases by blast
  show ?thesis
    by (simp add: screenshots_of_def n u generate_screenshot_urls_def Let_def)
qed

lemma add_screenshots_total:
  assumes "is_str (dict_get app ''name'' PNone)" "is_str (dict_get app ''iconURL'' (PStr []))"
  shows "\<exists>a'. add_screenshots app a = Inr a'"
proof -
  obtain shots where "screenshots_of app = Inr shots" using screenshots_of_total[OF assms] by blast
  then show ?thesis by (cases shots) (simp_all add: add_screenshots_def)
qed

lemma version_data_str:
  assumes "dict_get app ''name'' (PStr []) = PStr n" "is_str (dict_get app ''versionDate'' (PStr []))"
  shows "\<exists>date. version_data e app =
           Inr [(''version'', dict_get app ''version'' (PStr ''1.0'')),
                (''date'', date),
                (''size'', dict_get app ''size'' (PInt 0)),
                (''downloadURL'', dict_get app ''downloadURL'' (PStr [])),
                (''localizedDescription'', dict_get app ''localizedDescription'' (PStr [])),
                (''minOSVersion'', min_os_version app (lower n))]"
proof -
  obtain s where s: "dict_get app ''versionDate'' (PStr []) = PStr s" using assms(2) is_str_cases by blast
  obtain date where d: "format_date e (PStr s) = Inr date" using format_date_str by blast
  show ?thesis by (simp add: version_data_def s d assms(1) dict_set_def)
qed

lemma add_permissions_off: "add_permissions e False a = Inr a"
  by (simp add: add_permissions_def)

lemma add_permissions_total:
  assumes "is_dict_list (dict_get a ''versions'' PNone)"
  shows "\<exists>a'. add_permissions e analyze_ipa a = Inr a'"
proof -
  obtain vs where vs: "dict_get a ''versions'' PNone = PList vs" "list_all is_dict vs"
    using assms is_dict_list_cases by blast
  show ?thesis
  proof (cases vs)
    case Nil
    then show ?thesis by (simp add: add_permissions_def vs)
  next
    case (Cons v rest)
    then obtain d where "v = PDict d" using vs(2) is_dict_cases by auto
    then show ?thesis by (simp add: add_permissions_def vs Cons Let_def)
  qed
qed

lemma add_permissions_frame:
  assumes "add_permissions e analyze_ipa a = Inr a'" "k \<noteq> ''appPermissions''"
  shows "map_of a' k = map_of a k"
  using assms
  by (auto simp: add_permissions_def bind_err_Inr_iff Let_def map_of_dict_set split: if_splits)

lemma dict_get_present: "map_of d k = Some v \<Longrightarrow> dict_get d k dflt = v"
  by (simp add: dict_get_def)

lemma truthy_get_present: "truthy (dict_get d k PNone) \<Longrightarrow> \<exists>v. map_of d k = Some v \<and> truthy v"
  by (cases "map_of d k") (simp_all add: dict_get_def)

lemma versions_of_total:
  assumes "app_record app" "truthy (dict_get app ''name'' PNone)"
  shows "\<exists>versions. versions_of e app = Inr versions \<and> is_dict_list versions"
proof (cases "dict_has app ''versions''")
  case True
  then obtain v where v: "map_of app ''versions'' = Some v" by (auto simp: dict_has_def)
  have "is_dict_list v" using assms(1) v by (simp add: app_record_def dict_get_def)
  then show ?thesis using True v by (simp add: versions_of_def dict_get_def)
next
  case False
  obtain x where x: "map_of app ''name'' = Some x" using truthy_get_present[OF assms(2)] by blast
  have "is_str x" using assms(1) x by (simp add: app_record_def dict_get_def)
  then obtain n where n: "x = PStr n" using is_str_cases by blast
  have name: "dict_get app ''name'' (PStr []) = PStr n" using x n by (simp add: dict_get_def)
  have vd: "is_str (dict_get app ''versionDate'' (PStr []))" using assms(1) by (simp add: app_record_def)
  obtain date where "version_data e app =
           Inr [(''version'', dict_get app ''version'' (PStr ''1.0'')),
                (''date'', date),
                (''size'', dict_get app ''size'' (PInt 0)),
                (''downloadURL'', dict_get app ''downloadURL'' (PStr [])),
                (''localizedDescription'', dict_get app ''localizedDescription'' (PStr [])),
                (''minOSVersion'', min_os_version app (lower n))]"
    using version_data_str[OF name vd] by blast
  then show ?thesis using False by (simp add: versions_of_def)
qed

lemma convert_app_steps:
  assumes "app_record app" "truthy (dict_get app ''name'' PNone)"
    "truthy (dict_get app ''bundleIdentifier'' PNone)"
  shows "\<exists>shots versions a.
           add_screenshots app (add_subtitle app (base_fields app)) = Inr shots
         \<and> versions_of e app = Inr versions
         \<and> add_permissions e analyze_ipa (dict_set ''versions'' versions shots) = Inr a
         \<and> convert_app_to_altstore_format e (PDict app) analyze_ipa = Inr (Some (PDict a))"
proof -
  obtain x where x: "map_of app ''name'' = Some x" using truthy_get_present[OF assms(2)] by blast
  have nonempty: "app \<noteq> []" using x by auto
  have "is_str x" using assms(1) x by (simp add: app_record_def dict_get_def)
  then have n1: "is_str (dict_get app ''name'' PNone)" using x by (simp add: dict_get_def)
  have n2: "is_str (dict_get app ''iconURL'' (PStr []))" using assms(1) by (simp add: app_record_def)
  obtain shots where shots: "add_screenshots app (add_subtitle app (base_fields app)) = Inr shots"
    using add_screenshots_total[OF n1 n2] by blast
  obtain versions where versions: "versions_of e app = Inr versions" "is_dict_list versions"
    using versions_of_total[OF assms(1,2)] by blast
  have "is_dict_list (dict_get (dict_set ''versions'' versions shots) ''versions'' PNone)"
    using versions(2) by (simp add: dict_get_def map_of_dict_set)
  then obtain a where a: "add_permissions e analyze_ipa (dict_set ''versions'' versions shots) = Inr a"
    using add_permissions_total by blast
  have "convert_app_to_altstore_format e (PDict app) analyze_ipa = Inr (Some (PDict a))"
    using assms(2,3) nonempty shots versions(1) a
    by (simp add: convert_app_to_altstore_format_def)
  then show ?thesis using shots versions(1) a by blast
qed

lemma convert_app_versions:
  assumes "app_record app" "truthy (dict_get app ''name'' PNone)"
    "truthy (dict_get app ''bundleIdentifier'' PNone)"
  shows "\<exists>out versions. convert_app_to_altstore_format e (PDict app) analyze_ipa = Inr (Some (PDict out))
           \<and> versions_of e app = Inr versions \<and> map_of out ''versions'' = Some versions"
proof -
  obtain shots versions a where
    s: "versions_of e app = Inr versions"
       "add_permissions e analyze_ipa (dict_set ''versions'' versions shots) = Inr a"
       "convert_app_to_altstore_format e (PDict app) analyze_ipa = Inr (Some (PDict a))"
    using convert_app_steps[OF assms] by blast
  have "map_of a ''versions'' = Some versions"
    using add_permissions_frame[OF s(2), of "''versions''"] by (simp add: map_of_dict_set)
  then show ?thesis using s by blast
qed

section \<open>The conversion of one record\<close>

lemma lower_Foo: "lower ''Foo'' = ''foo''"
  by code_simp

lemma convert_foo_record:
  "convert_app_to_altstore_format e (PDict foo_record) False =
     Inr (Some (PDict
       [(''name'', PStr ''Foo''), (''bundleIdentifier'', PStr ''com.x.foo''),
        (''developerName'', PStr []), (''localizedDescription'', PStr []),
        (''iconURL'', PStr []), (''tintColor'', PStr ''FFC300''),
        (''versions'', PList [PDict
           [(''version'', PStr ''2.0''),
            (''date'', PStr (strftime_stamp (now e))),
            (''size'', PInt 0),
            (''downloadURL'', PStr ''https://h/f.ipa''),
            (''localizedDescription'', PStr []),
            (''minOSVersion'', PStr ''13.0'')]])]))"
  by (simp add: foo_record_def convert_app_to_altstore_format_def dict_get_def dict_has_def
      dict_set_def bind_err_def add_screenshots_def screenshots_of_def add_subtitle_def
      base_fields_def versions_of_def version_data_def format_date_def min_os_version_def
      add_permissions_def lower_Foo sublist_code)

lemma sample_stamp: "strftime_stamp (now sample_env) = ''2026-11-04T09:05:30-08:00''"
  by code_simp

text \<open>
  C7. The catalog holding the single record Foo / com.x.foo / 2.0 / https://h/f.ipa,
  converted without IPA analysis, gives one output record and no skip; the record's
  first version entry is version 2.0, the clock reading printed field by field and
  followed by -08:00, size 0, the download URL, an empty description and minimum OS
  13.0; the record has no appPermissions key.
\<close>

theorem foo_scenario:
  "convert_repository world (PDict [(''apps'', PList [PDict foo_record])]) output_file False =
     Inr \<lparr>written = PDict
            [(''apps'', PList [PDict
               [(''name'', PStr ''Foo''), (''bundleIdentifier'', PStr ''com.x.foo''),
                (''developerName'', PStr []), (''localizedDescription'', PStr []),
                (''iconURL'', PStr []), (''tintColor'', PStr ''FFC300''),
                (''versions'', PList [PDict
                   [(''version'', PStr ''2.0''),
                    (''date'', PStr
                       (four_digits (year (now (world 1))) @ ''-'' @ two_digits (month (now (world 1)))
                        @ ''-'' @ two_digits (day (now (world 1))) @ ''T''
                        @ two_digits (hour (now (world 1))) @ '':'' @ two_digits (minute (now (world 1)))
                        @ '':'' @ two_digits (second (now (world 1))) @ ''-08:00'')),
                    (''size'', PInt 0),
                    (''downloadURL'', PStr ''https://h/f.ipa''),
                    (''localizedDescription'', PStr []),
                    (''minOSVersion'', PStr ''13.0'')]])]]),
             (''identifier'', PStr ''com.converted.source''),
             (''sourceURL'', PStr (''https://example.com/'' @ basename output_file))],
          converted = 1, skipped = 0\<rparr>
   \<and> (\<exists>out. convert_app_to_altstore_format (world 1) (PDict foo_record) False = Inr (Some (PDict out))
          \<and> map_of out ''appPermissions'' = None)"
  by (simp add: convert_repository_def ensure_required_fields_def dict_get_def dict_has_def
      dict_set_def enumerate_eq_zip convert_foo_record strftime_stamp_def)

theorem foo_scenario_witness:
  "convert_repository (\<lambda>i. sample_env) (PDict [(''apps'', PList [PDict foo_record])]) ''out/converted.json'' False =
     Inr \<lparr>written = PDict
            [(''apps'', PList [PDict
               [(''name'', PStr ''Foo''), (''bundleIdentifier'', PStr ''com.x.foo''),
                (''developerName'', PStr []), (''localizedDescription'', PStr []),
                (''iconURL'', PStr []), (''tintColor'', PStr ''FFC300''),
                (''versions'', PList [PDict
                   [(''version'', PStr ''2.0''),
                    (''date'', PStr ''2026-11-04T09:05:30-08:00''),
                    (''size'', PInt 0),
                    (''downloadURL'', PStr ''https://h/f.ipa''),
                    (''localizedDescription'', PStr []),
                    (''minOSVersion'', PStr ''13.0'')]])]]),
             (''identifier'', PStr ''com.converted.source''),
             (''sourceURL'', PStr ''https://example.com/converted.json'')],
          converted = 1, skipped = 0\<rparr>"
  using foo_scenario [of "\<lambda>i. sample_env" "''out/converted.json''"] sample_stamp
  by (simp add: strftime_stamp_def)

lemma foo_record_typed:
  "app_record foo_record \<and> truthy (dict_get foo_record ''name'' PNone)
   \<and> truthy (dict_get foo_record ''bundleIdentifier'' PNone) \<and> \<not> dict_has foo_record ''versions''"
  by (simp add: app_record_def foo_record_def dict_get_def dict_has_def)

text \<open>
  C1, as stated, fails: a record with a name, a bundle identifier and the explicit
  version list [] is converted to a record whose version list is empty.
\<close>

theorem empty_versions_counterexample:
  "convert_app_to_altstore_format sample_env (PDict empty_versions_record) False =
     Inr (Some (PDict
       [(''name'', PStr ''Foo''), (''bundleIdentifier'', PStr ''com.x.foo''),
        (''developerName'', PStr []), (''localizedDescription'', PStr []),
        (''iconURL'', PStr []), (''tintColor'', PStr ''FFC300''),
        (''versions'', PList [])]))"
  by (simp add: empty_versions_record_def convert_app_to_altstore_format_def dict_get_def
      dict_has_def dict_set_def bind_err_def add_screenshots_def screenshots_of_def
      add_subtitle_def base_fields_def versions_of_def add_permissions_def sublist_code)

text \<open>
  C1, amended. A well-typed record with a non-empty name and bundle identifier is
  converted to exactly one record (the conversion returns a record, not a skip and not an
  exception). When the input has no versions field, the output's version list holds
  exactly one synthesized entry; when the input's versions field is a non-empty list, the
  output's version list is non-empty.
\<close>

theorem convert_app_has_version:
  assumes "app_record app"
    and "truthy (dict_get app ''name'' PNone)"
    and "truthy (dict_get app ''bundleIdentifier'' PNone)"
    and "\<not> dict_has app ''versions'' \<or> (\<exists>v vs. map_of app ''versions'' = Some (PList (v # vs)))"
  shows "\<exists>out v vs. convert_app_to_altstore_format e (PDict app) analyze_ipa = Inr (Some (PDict out))
           \<and> map_of out ''versions'' = Some (PList (v # vs))
           \<and> (dict_has app ''versions'' \<or> vs = [])"
proof -
  obtain out versions where out:
    "convert_app_to_altstore_format e (PDict app) analyze_ipa = Inr (Some (PDict out))"
    "versions_of e app = Inr versions" "map_of out ''versions'' = Some versions"
    using convert_app_versions[OF assms(1-3)] by blast
  show ?thesis
  proof (cases "dict_has app ''versions''")
    case True
    then obtain v vs where "map_of app ''versions'' = Some (PList (v # vs))" using assms(4) by blast
    then have "versions = PList (v # vs)" using out(2) True by (simp add: versions_of_def dict_get_def)
    then show ?thesis using out True by blast
  next
    case False
    then obtain v where "versions = PList [PDict v]"
      using out(2) by (auto simp: versions_of_def bind_err_Inr_iff)
    then show ?thesis using out by blast
  qed
qed

theorem convert_app_has_version_witness:
  "app_record foo_record \<and> truthy (dict_get foo_record ''name'' PNone)
   \<and> truthy (dict_get foo_record ''bundleIdentifier'' PNone) \<and> \<not> dict_has foo_record ''versions''
   \<and> (\<exists>out v vs. convert_app_to_altstore_format sample_env (PDict foo_record) True = Inr (Some (PDict out))
           \<and> map_of out ''versions'' = Some (PList (v # vs))
           \<and> (dict_has foo_record ''versions'' \<or> vs = []))"
  using convert_app_has_version [of foo_record sample_env True] foo_record_typed
  by simp

text \<open>
  C6. A well-typed record with a non-empty name and bundle identifier that carries an
  explicit versions field is converted to a record whose versions entry is the input's
  value, unchanged.
\<close>

theorem explicit_versions_copied:
  assumes "app_record app"
    and "truthy (dict_get app ''name'' PNone)"
    and "truthy (dict_get app ''bundleIdentifier'' PNone)"
    and "map_of app ''versions'' = Some versions"
  shows "\<exists>out. convert_app_to_altstore_format e (PDict app) analyze_ipa = Inr (Some (PDict out))
           \<and> map_of out ''versions'' = Some versions"
proof -
  obtain out vs where out:
    "convert_app_to_altstore_format e (PDict app) analyze_ipa = Inr (Some (PDict out))"
    "versions_of e app = Inr vs" "map_of out ''versions'' = Some vs"
    using convert_app_versions[OF assms(1-3)] by blast
  have "vs = versions" using out(2) assms(4) by (simp add: versions_of_def dict_get_def dict_has_def)
  then show ?thesis using out by blast
qed

theorem explicit_versions_copied_witness:
  "app_record two_versions_record \<and> truthy (dict_get two_versions_record ''name'' PNone)
   \<and> truthy (dict_get two_versions_record ''bundleIdentifier'' PNone)
   \<and> (\<exists>out. convert_app_to_altstore_format sample_env (PDict two_versions_record) True = Inr (Some (PDict out))
           \<and> map_of out ''versions'' = Some (PList
         [PDict [(''version'', PStr ''1.1''), (''date'', PStr ''2024-05-01''),
                 (''downloadURL'', PStr ''https://h/bar-1.1.ipa''), (''size'', PInt 12)],
          PDict [(''version'', PStr ''1.0'')]]))"
  using explicit_versions_copied [of two_versions_record _ sample_env True]
  by (simp add: app_record_def two_versions_record_def dict_get_def)

lemma dict_get_name:
  assumes "dict_get app ''name'' PNone = PStr n"
  shows "dict_get app ''name'' (PStr []) = PStr n"
  using assms by (cases "map_of app ''name''") (simp_all add: dict_get_def)

lemma lower_both_markers: "lower ''Delta iOS16 (iOS15 build)'' = ''delta ios16 (ios15 build)''"
  by code_simp

lemma both_markers_ios16: "sublist ''ios16'' (lower ''Delta iOS16 (iOS15 build)'')"
  by code_simp

lemma both_markers_ios15: "sublist ''ios15'' ''delta ios16 (ios15 build)''"
  by code_simp

text \<open>
  C3, as stated, fails: the name "Delta iOS16 (iOS15 build)" contains "ios16" when
  lowered, and the synthesized entry's minimum OS version is "15.0", not "16.0".
\<close>

theorem min_os_ios16_counterexample:
  "sublist ''ios16'' (lower ''Delta iOS16 (iOS15 build)'')
   \<and> convert_app_to_altstore_format sample_env (PDict both_markers_record) False =
     Inr (Some (PDict
       [(''name'', PStr ''Delta iOS16 (iOS15 build)''), (''bundleIdentifier'', PStr ''com.x.delta''),
        (''developerName'', PStr []), (''localizedDescription'', PStr []),
        (''iconURL'', PStr []), (''tintColor'', PStr ''FFC300''),
        (''versions'', PList [PDict
           [(''version'', PStr ''1.0''),
            (''date'', PStr ''2026-11-04T09:05:30-08:00''),
            (''size'', PInt 0),
            (''downloadURL'', PStr []),
            (''localizedDescription'', PStr []),
            (''minOSVersion'', PStr ''15.0'')]])]))"
  by (simp add: both_markers_ios16 both_markers_record_def convert_app_to_altstore_format_def
      dict_get_def dict_has_def dict_set_def bind_err_def add_screenshots_def screenshots_of_def
      add_subtitle_def base_fields_def versions_of_def version_data_def format_date_def
      min_os_version_def add_permissions_def lower_both_markers both_markers_ios15 sample_stamp
      sublist_code)

text \<open>
  C3, amended. For a well-typed record with a non-empty name and bundle identifier and no
  versions field, the single synthesized entry's minimum OS version follows the code's
  priority chain on the lowered name: "ios15" or "w15" gives "15.0"; otherwise "ios16"
  gives "16.0"; otherwise "ios14" gives "14.0"; otherwise the record's own minOSVersion
  field when it has one, and "13.0" when it has none.
\<close>

theorem min_os_priority_chain:
  assumes "app_record app"
    and "dict_get app ''name'' PNone = PStr n" and "n \<noteq> []"
    and "truthy (dict_get app ''bundleIdentifier'' PNone)"
    and "\<not> dict_has app ''versions''"
  shows "\<exists>out v. convert_app_to_altstore_format e (PDict app) analyze_ipa = Inr (Some (PDict out))
           \<and> map_of out ''versions'' = Some (PList [PDict v])
           \<and> map_of v ''minOSVersion'' =
               Some (if sublist ''ios15'' (lower n) \<or> sublist ''w15'' (lower n) then PStr ''15.0''
                     else if sublist ''ios16'' (lower n) then PStr ''16.0''
                     else if sublist ''ios14'' (lower n) then PStr ''14.0''
                     else (case map_of app ''minOSVersion'' of Some m \<Rightarrow> m | None \<Rightarrow> PStr ''13.0''))"
proof -
  have name: "truthy (dict_get app ''name'' PNone)" using assms(2,3) by simp
  obtain out versions where out:
    "convert_app_to_altstore_format e (PDict app) analyze_ipa = Inr (Some (PDict out))"
    "versions_of e app = Inr versions" "map_of out ''versions'' = Some versions"
    using convert_app_versions[OF assms(1) name assms(4)] by blast
  have vd: "is_str (dict_get app ''versionDate'' (PStr []))" using assms(1) by (simp add: app_record_def)
  obtain date where v: "version_data e app =
           Inr [(''version'', dict_get app ''version'' (PStr ''1.0'')),
                (''date'', date),
                (''size'', dict_get app ''size'' (PInt 0)),
                (''downloadURL'', dict_get app ''downloadURL'' (PStr [])),
                (''localizedDescription'', dict_get app ''localizedDescription'' (PStr [])),
                (''minOSVersion'', min_os_version app (lower n))]"
    using version_data_str[OF dict_get_name[OF assms(2)] vd] by blast
  have versions: "versions = PList [PDict [(''version'', dict_get app ''version'' (PStr ''1.0'')),
                (''date'', date),
                (''size'', dict_get app ''size'' (PInt 0)),
                (''downloadURL'', dict_get app ''downloadURL'' (PStr [])),
                (''localizedDescription'', dict_get app ''localizedDescription'' (PStr [])),
                (''minOSVersion'', min_os_version app (lower n))]]"
    using out(2) assms(5) v by (simp add: versions_of_def)
  have chain: "min_os_version app (lower n) =
               (if sublist ''ios15'' (lower n) \<or> sublist ''w15'' (lower n) then PStr ''15.0''
                     else if sublist ''ios16'' (lower n) then PStr ''16.0''
                     else if sublist ''ios14'' (lower n) then PStr ''14.0''
                     else (case map_of app ''minOSVersion'' of Some m \<Rightarrow> m | None \<Rightarrow> PStr ''13.0''))"
    by (cases "map_of app ''minOSVersion''") (simp_all add: min_os_version_def dict_has_def dict_get_def)
  show ?thesis using out(1,3) versions chain by simp
qed

lemma lower_Foo_iOS14: "lower ''Foo iOS14'' = ''foo ios14''"
  by code_simp

lemma foo_ios14_chain:
  "\<not> sublist ''ios15'' ''foo ios14'' \<and> \<not> sublist ''w15'' ''foo ios14''
   \<and> \<not> sublist ''ios16'' ''foo ios14'' \<and> sublist ''ios14'' ''foo ios14''"
  by code_simp

theorem min_os_priority_chain_witness:
  "app_record ios14_record \<and> dict_get ios14_record ''name'' PNone = PStr ''Foo iOS14''
   \<and> truthy (dict_get ios14_record ''bundleIdentifier'' PNone) \<and> \<not> dict_has ios14_record ''versions''
   \<and> (\<exists>out v. convert_app_to_altstore_format sample_env (PDict ios14_record) False = Inr (Some (PDict out))
           \<and> map_of out ''versions'' = Some (PList [PDict v])
           \<and> map_of v ''minOSVersion'' = Some (PStr ''14.0''))"
  using min_os_priority_chain [of ios14_record "''Foo iOS14''" sample_env False]
  by (simp add: app_record_def ios14_record_def dict_get_def dict_has_def lower_Foo_iOS14 foo_ios14_chain)

lemma icon_url_found: "sublist ''serve/icons'' ''https://x.test/serve/icons/App.png''"
  by code_simp

lemma icon_url_base: "split_head ''/serve/icons/'' ''https://x.test/serve/icons/App.png'' = ''https://x.test''"
  by code_simp

lemma safe_name_alnum:
  "safe_name n =
     map (\<lambda>c. if is_alnum c \<or> c = CHR ''-'' \<or> c = CHR ''_'' \<or> c = CHR ''.'' then c else CHR ''_'') n"
  by (auto simp: safe_name_def is_word_def)

text \<open>
  C8. For a well-typed record with a non-empty name and bundle identifier, the icon URL
  https://x.test/serve/icons/App.png and neither a screenshotURLs nor a screenshots
  field, the converted record's screenshots list holds exactly one URL: the base
  https://x.test, the path /serve/screenshots/, the app name, a slash, and the file name
  made of the app name with every character that is not alphanumeric, '-', '_' or '.'
  replaced by '_', followed by -0.png.
\<close>

theorem screenshot_fallback:
  assumes "app_record app"
    and "dict_get app ''name'' PNone = PStr n" and "n \<noteq> []"
    and "truthy (dict_get app ''bundleIdentifier'' PNone)"
    and "map_of app ''iconURL'' = Some (PStr ''https://x.test/serve/icons/App.png'')"
    and "\<not> dict_has app ''screenshotURLs''" and "\<not> dict_has app ''screenshots''"
  shows "\<exists>out. convert_app_to_altstore_format e (PDict app) analyze_ipa = Inr (Some (PDict out))
           \<and> map_of out ''screenshots'' =
               Some (PList [PStr (''https://x.test'' @ ''/serve/screenshots/'' @ n @ ''/''
                 @ map (\<lambda>c. if is_alnum c \<or> c = CHR ''-'' \<or> c = CHR ''_'' \<or> c = CHR ''.''
                             then c else CHR ''_'') n
                 @ ''-0.png'')])"
proof -
  have name: "truthy (dict_get app ''name'' PNone)" using assms(2,3) by simp
  obtain shots versions a where s:
    "add_screenshots app (add_subtitle app (base_fields app)) = Inr shots"
    "add_permissions e analyze_ipa (dict_set ''versions'' versions shots) = Inr a"
    "convert_app_to_altstore_format e (PDict app) analyze_ipa = Inr (Some (PDict a))"
    using convert_app_steps[OF assms(1) name assms(4)] by blast
  have icon: "dict_get app ''iconURL'' (PStr []) = PStr ''https://x.test/serve/icons/App.png''"
    using assms(5) by (simp add: dict_get_def)
  have "screenshots_of app =
          Inr (Some (PList [PStr (''https://x.test'' @ ''/serve/screenshots/'' @ n @ ''/''
                 @ safe_name n @ ''-0.png'')]))"
    using assms(3,6,7)
    by (simp add: screenshots_of_def icon assms(2) icon_url_found icon_url_base
        generate_screenshot_urls_def)
  then have "shots = dict_set ''screenshots''
          (PList [PStr (''https://x.test'' @ ''/serve/screenshots/'' @ n @ ''/''
                 @ safe_name n @ ''-0.png'')]) (add_subtitle app (base_fields app))"
    using s(1) by (simp add: add_screenshots_def)
  then have "map_of a ''screenshots'' =
          Some (PList [PStr (''https://x.test'' @ ''/serve/screenshots/'' @ n @ ''/''
                 @ safe_name n @ ''-0.png'')])"
    using add_permissions_frame[OF s(2), of "''screenshots''"] by (simp add: map_of_dict_set)
  then show ?thesis using s(3) by (simp add: safe_name_alnum)
qed

lemma my_app_safe_name:
  "map (\<lambda>c. if is_alnum c \<or> c = CHR ''-'' \<or> c = CHR ''_'' \<or> c = CHR ''.'' then c else CHR ''_'')
     ''My App+ 2!'' = ''My_App__2_''"
  by code_simp

theorem screenshot_fallback_witness:
  "app_record my_app_record \<and> dict_get my_app_record ''name'' PNone = PStr ''My App+ 2!''
   \<and> truthy (dict_get my_app_record ''bundleIdentifier'' PNone)
   \<and> map_of my_app_record ''iconURL'' = Some (PStr ''https://x.test/serve/icons/App.png'')
   \<and> \<not> dict_has my_app_record ''screenshotURLs'' \<and> \<not> dict_has my_app_record ''screenshots''
   \<and> (\<exists>out. convert_app_to_altstore_format sample_env (PDict my_app_record) False = Inr (Some (PDict out))
           \<and> map_of out ''screenshots'' =
               Some (PList [PStr ''https://x.test/serve/screenshots/My App+ 2!/My_App__2_-0.png'']))"
  using screenshot_fallback [of my_app_record "''My App+ 2!''" sample_env False, unfolded my_app_safe_name]
  by (simp add: app_record_def my_app_record_def dict_get_def dict_has_def)

section \<open>The conversion of a catalog\<close>

lemma convert_loop_dicts:
  assumes "list_all (\<lambda>item. is_dict (snd item)) items"
  shows "convert_loop world analyze_ipas items (converted_apps, skipped_apps) =
           Inr (converted_apps @ List.map_filter (kept world analyze_ipas) items,
                skipped_apps + skips world analyze_ipas items)"
  using assms
proof (induction items arbitrary: converted_apps skipped_apps)
  case Nil
  then show ?case by (simp add: skips_def)
next
  case (Cons item items)
  obtain i app where item: "item = (i, app)" by (cases item)
  obtain d where d: "app = PDict d" using Cons.prems item is_dict_cases by auto
  have rest: "list_all (\<lambda>item. is_dict (snd item)) items" using Cons.prems by simp
  show ?case
  proof (cases "convert_app_to_altstore_format (world i) (PDict d) analyze_ipas")
    case (Inl err)
    then show ?thesis using Cons.IH[OF rest] by (simp add: item d kept_def skips_def)
  next
    case (Inr result)
    then show ?thesis using Cons.IH[OF rest]
      by (cases result) (simp_all add: item d kept_def skips_def)
  qed
qed

lemma enumerate_dicts:
  "list_all is_dict xs \<Longrightarrow> list_all (\<lambda>item. is_dict (snd item)) (enumerate n xs)"
  by (induction xs arbitrary: n) simp_all

lemma convert_repository_dicts:
  assumes "dict_get doc ''apps'' (PList []) = PList apps" and "list_all is_dict apps"
  shows "convert_repository world (PDict doc) output_file analyze_ipas =
     Inr \<lparr>written = PDict (ensure_required_fields output_file
            (dict_set ''apps'' (PList (List.map_filter (kept world analyze_ipas) (enumerate 1 apps))) doc)),
          converted = length (List.map_filter (kept world analyze_ipas) (enumerate 1 apps)),
          skipped = skips world analyze_ipas (enumerate 1 apps)\<rparr>"
  using convert_loop_dicts[OF enumerate_dicts[OF assms(2)], of world analyze_ipas 1 "[]" 0]
  by (simp add: convert_repository_def assms(1))

lemma ensure_required_fields_identifier:
  "map_of (ensure_required_fields output_file data) ''identifier'' =
     Some (case map_of data ''identifier'' of Some v \<Rightarrow> v | None \<Rightarrow> PStr ''com.converted.source'')"
  by (auto simp: ensure_required_fields_def Let_def dict_has_def map_of_dict_set split: option.splits)

lemma ensure_required_fields_sourceURL:
  "map_of (ensure_required_fields output_file data) ''sourceURL'' =
     Some (case map_of data ''sourceURL'' of Some v \<Rightarrow> v
           | None \<Rightarrow> PStr (''https://example.com/'' @ basename output_file))"
  by (auto simp: ensure_required_fields_def Let_def dict_has_def map_of_dict_set split: option.splits)

lemma ensure_required_fields_other:
  "k \<noteq> ''identifier'' \<Longrightarrow> k \<noteq> ''sourceURL'' \<Longrightarrow>
     map_of (ensure_required_fields output_file data) k = map_of data k"
  by (auto simp: ensure_required_fields_def Let_def dict_has_def map_of_dict_set split: option.splits)

lemma catalog_apps:
  assumes "catalog doc"
  shows "\<exists>apps. dict_get doc ''apps'' (PList []) = PList apps \<and> list_all is_dict apps"
  using assms is_dict_list_cases by (simp add: catalog_def)

text \<open>
  C9. For every catalog (a document whose app list, when present, is a list of
  dictionaries), convert_repository writes a document that has an identifier and a
  sourceURL: the input's own value when the key is present, and otherwise
  "com.converted.source" and "https://example.com/" followed by the base name of the
  output file.
\<close>

theorem required_fields_present:
  assumes "catalog doc"
  shows "\<exists>r out. convert_repository world (PDict doc) output_file analyze_ipas = Inr r
           \<and> written r = PDict out
           \<and> map_of out ''identifier'' =
               Some (case map_of doc ''identifier'' of Some v \<Rightarrow> v
                     | None \<Rightarrow> PStr ''com.converted.source'')
           \<and> map_of out ''sourceURL'' =
               Some (case map_of doc ''sourceURL'' of Some v \<Rightarrow> v
                     | None \<Rightarrow> PStr (''https://example.com/'' @ basename output_file))"
proof -
  obtain apps where apps: "dict_get doc ''apps'' (PList []) = PList apps" "list_all is_dict apps"
    using catalog_apps[OF assms] by blast
  show ?thesis
    by (simp add: convert_repository_dicts[OF apps] ensure_required_fields_identifier
        ensure_required_fields_sourceURL map_of_dict_set)
qed

lemma basename_sample: "basename ''out/converted.json'' = ''converted.json''"
  by code_simp

lemma sample_catalog_typed: "catalog sample_catalog"
  by (simp add: catalog_def sample_catalog_def dict_get_def)

theorem required_fields_present_witness:
  "catalog sample_catalog
   \<and> (\<exists>r out. convert_repository (\<lambda>i. sample_env) (PDict sample_catalog) ''out/converted.json'' False = Inr r
           \<and> written r = PDict out
           \<and> map_of out ''identifier'' = Some (PStr ''com.example.repo'')
           \<and> map_of out ''sourceURL'' = Some (PStr ''https://example.com/converted.json''))"
  using required_fields_present [of sample_catalog "\<lambda>i. sample_env" "''out/converted.json''" False]
    sample_catalog_typed
  by (simp add: sample_catalog_def basename_sample)

text \<open>
  C10. For every catalog, the document that convert_repository writes agrees with the
  input on every top-level key other than apps, identifier and sourceURL (no such key is
  added, removed or changed); its apps entry is the list of the kept conversions of the
  input's app records, in the input's order; and an identifier or sourceURL that the
  input has keeps its value.
\<close>

theorem repository_frame:
  assumes "catalog doc"
  shows "\<exists>r out apps. convert_repository world (PDict doc) output_file analyze_ipas = Inr r
           \<and> written r = PDict out
           \<and> dict_get doc ''apps'' (PList []) = PList apps
           \<and> (\<forall>k. k \<noteq> ''apps'' \<and> k \<noteq> ''identifier'' \<and> k \<noteq> ''sourceURL''
                  \<longrightarrow> map_of out k = map_of doc k)
           \<and> map_of out ''apps'' = Some (PList (List.map_filter (kept world analyze_ipas) (enumerate 1 apps)))
           \<and> (dict_has doc ''identifier'' \<longrightarrow> map_of out ''identifier'' = map_of doc ''identifier'')
           \<and> (dict_has doc ''sourceURL'' \<longrightarrow> map_of out ''sourceURL'' = map_of doc ''sourceURL'')"
proof -
  obtain apps where apps: "dict_get doc ''apps'' (PList []) = PList apps" "list_all is_dict apps"
    using catalog_apps[OF assms] by blast
  let ?out = "ensure_required_fields output_file
    (dict_set ''apps'' (PList (List.map_filter (kept world analyze_ipas) (enumerate 1 apps))) doc)"
  have other: "\<forall>k. k \<noteq> ''apps'' \<and> k \<noteq> ''identifier'' \<and> k \<noteq> ''sourceURL'' \<longrightarrow> map_of ?out k = map_of doc k"
    by (simp add: ensure_required_fields_other map_of_dict_set)
  have new_apps: "map_of ?out ''apps'' = Some (PList (List.map_filter (kept world analyze_ipas) (enumerate 1 apps)))"
    by (simp add: ensure_required_fields_other map_of_dict_set)
  have ident: "dict_has doc ''identifier'' \<longrightarrow> map_of ?out ''identifier'' = map_of doc ''identifier''"
    by (auto simp: ensure_required_fields_identifier map_of_dict_set dict_has_def)
  have source: "dict_has doc ''sourceURL'' \<longrightarrow> map_of ?out ''sourceURL'' = map_of doc ''sourceURL''"
    by (auto simp: ensure_required_fields_sourceURL map_of_dict_set dict_has_def)
  show ?thesis
    using convert_repository_dicts[OF apps, of world output_file analyze_ipas] apps(1) other new_apps ident source
    by (intro exI[of _ "\<lparr>written = PDict ?out,
          converted = length (List.map_filter (kept world analyze_ipas) (enumerate 1 apps)),
          skipped = skips world analyze_ipas (enumerate 1 apps)\<rparr>"] exI[of _ ?out] exI[of _ apps]) simp
qed

lemma kept_foo_record:
  "kept (\<lambda>i. sample_env) False (i, PDict foo_record) =
     Some (PDict
       [(''name'', PStr ''Foo''), (''bundleIdentifier'', PStr ''com.x.foo''),
        (''developerName'', PStr []), (''localizedDescription'', PStr []),
        (''iconURL'', PStr []), (''tintColor'', PStr ''FFC300''),
        (''versions'', PList [PDict
           [(''version'', PStr ''2.0''),
            (''date'', PStr ''2026-11-04T09:05:30-08:00''),
            (''size'', PInt 0),
            (''downloadURL'', PStr ''https://h/f.ipa''),
            (''localizedDescription'', PStr []),
            (''minOSVersion'', PStr ''13.0'')]])])"
  by (simp add: kept_def convert_foo_record sample_stamp)

lemma convert_incomplete:
  assumes "\<not> truthy (dict_get app ''name'' PNone) \<or> \<not> truthy (dict_get app ''bundleIdentifier'' PNone)"
  shows "convert_app_to_altstore_format e (PDict app) analyze_ipa = Inr None"
  using assms by (auto simp: convert_app_to_altstore_format_def)

lemma kept_no_bundle_record: "kept world analyze_ipas (i, PDict no_bundle_record) = None"
  by (simp add: kept_def convert_incomplete no_bundle_record_def dict_get_def)

theorem repository_frame_witness:
  "catalog sample_catalog
   \<and> (\<exists>r out. convert_repository (\<lambda>i. sample_env) (PDict sample_catalog) ''out/converted.json'' False = Inr r
           \<and> written r = PDict out
           \<and> map_of out ''name'' = Some (PStr ''Sample Repo'')
           \<and> map_of out ''news'' = Some (PList [])
           \<and> map_of out ''identifier'' = Some (PStr ''com.example.repo'')
           \<and> map_of out ''apps'' = Some (PList [PDict
               [(''name'', PStr ''Foo''), (''bundleIdentifier'', PStr ''com.x.foo''),
                (''developerName'', PStr []), (''localizedDescription'', PStr []),
                (''iconURL'', PStr []), (''tintColor'', PStr ''FFC300''),
                (''versions'', PList [PDict
                   [(''version'', PStr ''2.0''),
                    (''date'', PStr ''2026-11-04T09:05:30-08:00''),
                    (''size'', PInt 0),
                    (''downloadURL'', PStr ''https://h/f.ipa''),
                    (''localizedDescription'', PStr []),
                    (''minOSVersion'', PStr ''13.0'')]])]]))"
proof -
  obtain r out apps where r:
    "convert_repository (\<lambda>i. sample_env) (PDict sample_catalog) ''out/converted.json'' False = Inr r"
    "written r = PDict out"
    "dict_get sample_catalog ''apps'' (PList []) = PList apps"
    "\<forall>k. k \<noteq> ''apps'' \<and> k \<noteq> ''identifier'' \<and> k \<noteq> ''sourceURL'' \<longrightarrow> map_of out k = map_of sample_catalog k"
    "map_of out ''apps'' = Some (PList (List.map_filter (kept (\<lambda>i. sample_env) False) (enumerate 1 apps)))"
    "dict_has sample_catalog ''identifier'' \<longrightarrow> map_of out ''identifier'' = map_of sample_catalog ''identifier''"
    using repository_frame [OF sample_catalog_typed, of "\<lambda>i. sample_env" "''out/converted.json''" False]
    by (elim exE conjE)
  have apps: "apps = [PDict foo_record, PDict no_bundle_record]"
    using r(3) by (simp add: sample_catalog_def dict_get_def)
  have "map_of out ''name'' = Some (PStr ''Sample Repo'')" "map_of out ''news'' = Some (PList [])"
    using r(4) by (simp_all add: sample_catalog_def)
  moreover have "map_of out ''identifier'' = Some (PStr ''com.example.repo'')"
    using r(6) by (simp add: sample_catalog_def dict_has_def)
  moreover note r(1,2) r(5)[unfolded apps] sample_catalog_typed
  ultimately show ?thesis
    by (simp add: kept_foo_record kept_no_bundle_record)
qed

lemma kept_incomplete:
  assumes "\<not> truthy (dict_get app ''name'' PNone) \<or> \<not> truthy (dict_get app ''bundleIdentifier'' PNone)"
  shows "kept world analyze_ipas (i, PDict app) = None"
  by (simp add: kept_def convert_incomplete[OF assms])

text \<open>
  C2. A record that lacks a non-empty name or a non-empty bundle identifier makes
  convert_app_to_altstore_format return the skip value. In a catalog whose app list is
  the records before it, the record itself and the records after it, the written apps
  list consists of the kept conversions of the records before and after only, and the
  skip counter is the skips among the records before, plus one for this record, plus the
  skips among the records after.
\<close>

theorem incomplete_record_skipped:
  assumes "\<not> truthy (dict_get app ''name'' PNone) \<or> \<not> truthy (dict_get app ''bundleIdentifier'' PNone)"
    and "dict_get doc ''apps'' (PList []) = PList (before @ PDict app # after)"
    and "list_all is_dict before" and "list_all is_dict after"
  shows "convert_app_to_altstore_format e (PDict app) analyze_ipas = Inr None
       \<and> (\<exists>r out. convert_repository world (PDict doc) output_file analyze_ipas = Inr r
             \<and> written r = PDict out
             \<and> map_of out ''apps'' =
                 Some (PList (List.map_filter (kept world analyze_ipas) (enumerate 1 before)
                            @ List.map_filter (kept world analyze_ipas) (enumerate (length before + 2) after)))
             \<and> skipped r = skips world analyze_ipas (enumerate 1 before) + 1
                            + skips world analyze_ipas (enumerate (length before + 2) after))"
proof -
  let ?items = "enumerate 1 (before @ PDict app # after)"
  have dicts: "list_all is_dict (before @ PDict app # after)" using assms(3,4) by simp
  have items: "?items = enumerate 1 before @ (length before + 1, PDict app) # enumerate (length before + 2) after"
    by (simp add: enumerate_append_eq)
  have this_one: "kept world analyze_ipas (length before + 1, PDict app) = None"
    using kept_incomplete[OF assms(1)] by simp
  have apps: "List.map_filter (kept world analyze_ipas) ?items =
                List.map_filter (kept world analyze_ipas) (enumerate 1 before)
                @ List.map_filter (kept world analyze_ipas) (enumerate (length before + 2) after)"
    unfolding items using this_one by (simp add: List.map_filter_def)
  have count: "skips world analyze_ipas ?items =
                 skips world analyze_ipas (enumerate 1 before) + 1
                 + skips world analyze_ipas (enumerate (length before + 2) after)"
    unfolding items using this_one by (simp add: skips_def)
  note run = convert_repository_dicts[OF assms(2) dicts, of world output_file analyze_ipas,
      unfolded apps count]
  show ?thesis
    by (simp add: convert_incomplete[OF assms(1)] run ensure_required_fields_other map_of_dict_set)
qed

theorem incomplete_record_skipped_witness:
  "\<not> truthy (dict_get no_bundle_record ''bundleIdentifier'' PNone)
   \<and> dict_get sample_catalog ''apps'' (PList []) = PList ([PDict foo_record] @ PDict no_bundle_record # [])
   \<and> convert_app_to_altstore_format sample_env (PDict no_bundle_record) False = Inr None
   \<and> (\<exists>r out. convert_repository (\<lambda>i. sample_env) (PDict sample_catalog) ''out/converted.json'' False = Inr r
         \<and> written r = PDict out
         \<and> map_of out ''apps'' = Some (PList [PDict
               [(''name'', PStr ''Foo''), (''bundleIdentifier'', PStr ''com.x.foo''),
                (''developerName'', PStr []), (''localizedDescription'', PStr []),
                (''iconURL'', PStr []), (''tintColor'', PStr ''FFC300''),
                (''versions'', PList [PDict
                   [(''version'', PStr ''2.0''),
                    (''date'', PStr ''2026-11-04T09:05:30-08:00''),
                    (''size'', PInt 0),
                    (''downloadURL'', PStr ''https://h/f.ipa''),
                    (''localizedDescription'', PStr []),
                    (''minOSVersion'', PStr ''13.0'')]])]])
         \<and> skipped r = 1)"
proof -
  have h1: "\<not> truthy (dict_get no_bundle_record ''name'' PNone)
            \<or> \<not> truthy (dict_get no_bundle_record ''bundleIdentifier'' PNone)"
    by (simp add: no_bundle_record_def dict_get_def)
  have h2: "dict_get sample_catalog ''apps'' (PList []) = PList ([PDict foo_record] @ PDict no_bundle_record # [])"
    by (simp add: sample_catalog_def dict_get_def)
  have h3: "list_all is_dict [PDict foo_record]" and h4: "list_all is_dict []" by simp_all
  have none: "\<not> truthy (dict_get no_bundle_record ''bundleIdentifier'' PNone)"
    by (simp add: no_bundle_record_def dict_get_def)
  show ?thesis
    using incomplete_record_skipped [OF h1 h2 h3 h4, of sample_env False "\<lambda>i. sample_env" "''out/converted.json''"]
      h2 none
    by (simp add: kept_foo_record skips_def)
qed

section \<open>Entitlements of an archive\<close>

lemma set_add_new: "set (add_new seen extra) = set seen \<union> set extra"
  unfolding add_new_def
  by (induction extra arbitrary: seen) auto

lemma extract_codesign_filtered:
  "\<exists>ks. extract_entitlements_with_codesign r = filter is_entitlement ks"
proof (cases r)
  case ToolRaised
  then show ?thesis by (simp add: exI[of _ "[]"])
next
  case (ToolExited returncode stdout parsed)
  show ?thesis
  proof (cases "returncode = 0 \<and> stdout \<noteq> []")
    case False
    then show ?thesis using ToolExited by (auto simp: exI[of _ "[]"])
  next
    case True
    show ?thesis
    proof (cases parsed)
      case None
      then show ?thesis using ToolExited True by (simp add: exI[of _ "[]"])
    next
      case (Some v)
      then show ?thesis using ToolExited True
        by (cases v) (auto simp: exI[of _ "[]"])
    qed
  qed
qed

lemma extract_mobileprovision_filtered:
  "\<exists>ks. extract_mobileprovision_with_security r = filter is_entitlement ks"
proof (cases r)
  case ToolRaised
  then show ?thesis by (simp add: exI[of _ "[]"])
next
  case (ToolExited returncode stdout parsed)
  show ?thesis
  proof (cases "returncode = 0 \<and> stdout \<noteq> []")
    case False
    then show ?thesis using ToolExited by (auto simp: exI[of _ "[]"])
  next
    case True
    show ?thesis
    proof (cases parsed)
      case None
      then show ?thesis using ToolExited True by (simp add: exI[of _ "[]"])
    next
      case (Some v)
      show ?thesis
      proof (cases v)
        case (PDict plist_data)
        show ?thesis
        proof (cases "map_of plist_data ''Entitlements''")
          case None
          then show ?thesis using ToolExited True Some PDict by (simp add: exI[of _ "[]"])
        next
          case inner: (Some w)
          then show ?thesis using ToolExited True Some PDict
            by (cases w) (auto simp: exI[of _ "[]"])
        qed
      qed (use ToolExited True Some in \<open>auto simp: exI[of _ "[]"]\<close>)
    qed
  qed
qed

lemma set_extract_codesign:
  "set (extract_entitlements_with_codesign r) \<subseteq> {k. is_entitlement k}"
  using extract_codesign_filtered[of r] by auto

lemma set_extract_mobileprovision:
  "set (extract_mobileprovision_with_security r) \<subseteq> {k. is_entitlement k}"
  using extract_mobileprovision_filtered[of r] by auto

lemma analyze_both_tools:
  assumes "both_tools_run f"
  shows "entitlements (analyze_ipa_file f) =
           sort (remdups (add_new (extract_entitlements_with_codesign (codesign f))
                                  (extract_mobileprovision_with_security (security_cms f))))"
proof -
  obtain app_folder others where folders: "app_folders f = app_folder # others"
    using assms by (cases "app_folders f") (simp_all add: both_tools_run_def)
  show ?thesis
    using assms by (auto simp: both_tools_run_def analyze_ipa_file_def folders Let_def)
qed

text \<open>
  The entitlement list of every inspection, whatever the archive and the tools do, is
  sorted, free of duplicates and made of dictionary keys only.
\<close>

lemma entitlements_sorted_distinct:
  "sorted (entitlements (analyze_ipa_file f)) \<and> distinct (entitlements (analyze_ipa_file f))
   \<and> set (entitlements (analyze_ipa_file f)) \<subseteq> {k. is_entitlement k}"
proof -
  have "set (add_new (extract_entitlements_with_codesign (codesign f))
               (extract_mobileprovision_with_security (security_cms f))) \<subseteq> {k. is_entitlement k}"
    using set_extract_codesign[of "codesign f"] set_extract_mobileprovision[of "security_cms f"]
    by (simp add: set_add_new)
  then show ?thesis
    using set_extract_codesign[of "codesign f"]
    by (auto simp: analyze_ipa_file_def empty_permissions_def Let_def split: list.splits)
qed

text \<open>
  C5. When the inspection runs both tools and each returns a property list (the signing
  tool a dictionary, the decoded profile a dictionary with an Entitlements dictionary),
  the returned entitlement list is sorted in the lexicographic order of strings, has no
  duplicates, and its elements are exactly the keys reported by either tool that are in
  the static entitlement dictionary.
\<close>

theorem entitlements_merged:
  assumes "both_tools_run f"
    and "codesign f = ToolExited 0 stdout1 (Some (PDict signing))" and "stdout1 \<noteq> []"
    and "security_cms f = ToolExited 0 stdout2 (Some (PDict profile))" and "stdout2 \<noteq> []"
    and "map_of profile ''Entitlements'' = Some (PDict granted)"
  shows "sorted (entitlements (analyze_ipa_file f)) \<and> distinct (entitlements (analyze_ipa_file f))
       \<and> set (entitlements (analyze_ipa_file f)) =
           {k \<in> fst ` set signing \<union> fst ` set granted. is_entitlement k}"
proof -
  have "set (entitlements (analyze_ipa_file f)) =
          set (filter is_entitlement (map fst signing)) \<union> set (filter is_entitlement (map fst granted))"
    by (simp add: analyze_both_tools[OF assms(1)] set_add_new assms(2-6))
  then have "set (entitlements (analyze_ipa_file f)) =
           {k \<in> fst ` set signing \<union> fst ` set granted. is_entitlement k}"
    by auto
  then show ?thesis
    by (simp add: analyze_both_tools[OF assms(1)])
qed

lemma sample_ipa_runs: "both_tools_run sample_ipa"
  by code_simp

lemma sample_ipa_entitlements:
  "entitlements (analyze_ipa_file sample_ipa) =
     [''aps-environment'', ''get-task-allow'', ''keychain-access-groups'']"
  by code_simp

theorem entitlements_merged_witness:
  "both_tools_run sample_ipa
   \<and> sorted (entitlements (analyze_ipa_file sample_ipa))
   \<and> distinct (entitlements (analyze_ipa_file sample_ipa))
   \<and> set (entitlements (analyze_ipa_file sample_ipa)) =
       {k \<in> fst ` set [(''keychain-access-groups'', PList []), (''get-task-allow'', PBool True),
                         (''com.example.private'', PBool True)]
            \<union> fst ` set [(''get-task-allow'', PBool True), (''aps-environment'', PStr ''development'')].
        is_entitlement k}"
proof -
  have c: "codesign sample_ipa = ToolExited 0 ''<plist>''
        (Some (PDict [(''keychain-access-groups'', PList []), (''get-task-allow'', PBool True),
                      (''com.example.private'', PBool True)]))"
    by (simp add: sample_ipa_def)
  have s: "security_cms sample_ipa = ToolExited 0 ''<plist>''
        (Some (PDict [(''Name'', PStr ''Dev''),
                      (''Entitlements'', PDict [(''get-task-allow'', PBool True),
                                                (''aps-environment'', PStr ''development'')])]))"
    by (simp add: sample_ipa_def)
  have n: "''<plist>'' \<noteq> []" by simp
  have g: "map_of [(''Name'', PStr ''Dev''),
                      (''Entitlements'', PDict [(''get-task-allow'', PBool True),
                                                (''aps-environment'', PStr ''development'')])]
             ''Entitlements'' = Some (PDict [(''get-task-allow'', PBool True),
                                                (''aps-environment'', PStr ''development'')])"
    by simp
  show ?thesis
    using entitlements_merged [OF sample_ipa_runs c n s n g] sample_ipa_runs by (intro conjI) simp_all
qed

section \<open>Failed downloads\<close>

lemma download_failed_empty:
  assumes "download_failed (fetch e download_url)"
  shows "download_and_analyze_ipa e download_url = \<lparr>entitlements = [], privacy = []\<rparr>"
  using assms
  by (cases "fetch e download_url") (simp_all add: download_and_analyze_ipa_def empty_permissions_def)

lemma screenshots_no_permissions:
  assumes "add_screenshots app (add_subtitle app (base_fields app)) = Inr shots"
  shows "map_of shots ''appPermissions'' = None"
  using assms
  by (auto simp: add_screenshots_def bind_err_Inr_iff add_subtitle_def base_fields_def
      map_of_dict_set split: option.splits)

lemma add_permissions_failed:
  assumes "dict_get a ''versions'' PNone = PList (PDict v # vs)"
    and "download_failed (fetch e (dict_get v ''downloadURL'' PNone))"
  shows "add_permissions e analyze_ipa a = Inr a"
  using assms(1) download_failed_empty[OF assms(2)]
  by (simp add: add_permissions_def Let_def)

text \<open>
  C4. When the download of a URL fails (timeout, connection error, HTTP error, any
  other exception, or a downloaded file that is not a ZIP archive),
  download_and_analyze_ipa returns the empty result; and a well-typed record with a
  non-empty name and bundle identifier whose first version entry carries that URL (from
  the flat downloadURL field, or from the first entry of an explicit versions list) is
  converted, with analysis requested, to a record without an appPermissions key.
\<close>

theorem failed_download_no_permissions:
  assumes "download_failed (fetch e download_url)"
    and "app_record app"
    and "truthy (dict_get app ''name'' PNone)"
    and "truthy (dict_get app ''bundleIdentifier'' PNone)"
    and "(if dict_has app ''versions''
          then \<exists>v vs. map_of app ''versions'' = Some (PList (PDict v # vs))
                 \<and> dict_get v ''downloadURL'' PNone = download_url
          else dict_get app ''downloadURL'' (PStr []) = download_url)"
  shows "download_and_analyze_ipa e download_url = \<lparr>entitlements = [], privacy = []\<rparr>
       \<and> (\<exists>out. convert_app_to_altstore_format e (PDict app) True = Inr (Some (PDict out))
             \<and> map_of out ''appPermissions'' = None)"
proof -
  obtain shots versions a where s:
    "add_screenshots app (add_subtitle app (base_fields app)) = Inr shots"
    "versions_of e app = Inr versions"
    "add_permissions e True (dict_set ''versions'' versions shots) = Inr a"
    "convert_app_to_altstore_format e (PDict app) True = Inr (Some (PDict a))"
    using convert_app_steps[OF assms(2-4)] by blast
  have "\<exists>v vs. versions = PList (PDict v # vs) \<and> dict_get v ''downloadURL'' PNone = download_url"
  proof (cases "dict_has app ''versions''")
    case True
    then show ?thesis using assms(5) s(2) by (auto simp: versions_of_def dict_get_def)
  next
    case False
    obtain x where x: "map_of app ''name'' = Some x" using truthy_get_present[OF assms(3)] by blast
    have "is_str x" using assms(2) x by (simp add: app_record_def dict_get_def)
    then obtain n where n: "dict_get app ''name'' (PStr []) = PStr n"
      using x is_str_cases by (auto simp: dict_get_def)
    have vd: "is_str (dict_get app ''versionDate'' (PStr []))" using assms(2) by (simp add: app_record_def)
    obtain date where "version_data e app =
           Inr [(''version'', dict_get app ''version'' (PStr ''1.0'')),
                (''date'', date),
                (''size'', dict_get app ''size'' (PInt 0)),
                (''downloadURL'', dict_get app ''downloadURL'' (PStr [])),
                (''localizedDescription'', dict_get app ''localizedDescription'' (PStr [])),
                (''minOSVersion'', min_os_version app (lower n))]"
      using version_data_str[OF n vd] by blast
    then show ?thesis using False assms(5) s(2) by (auto simp: versions_of_def dict_get_def)
  qed
  then obtain v vs where v: "versions = PList (PDict v # vs)"
    "dict_get v ''downloadURL'' PNone = download_url" by blast
  have "dict_get (dict_set ''versions'' versions shots) ''versions'' PNone = PList (PDict v # vs)"
    using v(1) by (simp add: dict_get_def map_of_dict_set)
  then have "add_permissions e True (dict_set ''versions'' versions shots) = Inr (dict_set ''versions'' versions shots)"
    using add_permissions_failed assms(1) v(2) by blast
  then have "a = dict_set ''versions'' versions shots" using s(3) by simp
  then have "map_of a ''appPermissions'' = None"
    using screenshots_no_permissions[OF s(1)] by (simp add: map_of_dict_set)
  then show ?thesis using s(4) download_failed_empty[OF assms(1)] by simp
qed

theorem failed_download_no_permissions_witness:
  "download_failed (fetch not_zip_env (PStr ''https://h/f.ipa''))
   \<and> app_record foo_record
   \<and> truthy (dict_get foo_record ''name'' PNone)
   \<and> truthy (dict_get foo_record ''bundleIdentifier'' PNone)
   \<and> dict_get foo_record ''downloadURL'' (PStr []) = PStr ''https://h/f.ipa''
   \<and> download_and_analyze_ipa not_zip_env (PStr ''https://h/f.ipa'') = \<lparr>entitlements = [], privacy = []\<rparr>
   \<and> (\<exists>out. convert_app_to_altstore_format not_zip_env (PDict foo_record) True = Inr (Some (PDict out))
         \<and> map_of out ''appPermissions'' = None)"
proof -
  have h1: "download_failed (fetch not_zip_env (PStr ''https://h/f.ipa''))"
    by (simp add: not_zip_env_def)
  have h5: "(if dict_has foo_record ''versions''
          then \<exists>v vs. map_of foo_record ''versions'' = Some (PList (PDict v # vs))
                 \<and> dict_get v ''downloadURL'' PNone = PStr ''https://h/f.ipa''
          else dict_get foo_record ''downloadURL'' (PStr []) = PStr ''https://h/f.ipa'')"
    by (simp add: foo_record_def dict_has_def dict_get_def)
  have url: "dict_get foo_record ''downloadURL'' (PStr []) = PStr ''https://h/f.ipa''"
    by (simp add: foo_record_def dict_get_def)
  show ?thesis
    using failed_download_no_permissions [OF h1 _ _ _ h5] foo_record_typed h1 url
    by simp
qed

end
